theory Spec2Isabelle
  imports Complex_Main "HOL-Library.Word" "HOL-Library.Sublist"
begin

section \<open>Strings\<close>

text \<open>
  Python strings are modelled as \<^typ>\<open>string\<close>. The case conversions cover the ASCII
  letters, which is what \<open>str.upper\<close> and \<open>str.lower\<close> do on ASCII text; every
  name in the tables of the program is ASCII.
\<close>

definition upper_char :: "char \<Rightarrow> char" where
  "upper_char c =
     (case map_of (zip ''abcdefghijklmnopqrstuvwxyz'' ''ABCDEFGHIJKLMNOPQRSTUVWXYZ'') c of
        Some u \<Rightarrow> u
      | None \<Rightarrow> c)"

definition lower_char :: "char \<Rightarrow> char" where
  "lower_char c =
     (case map_of (zip ''ABCDEFGHIJKLMNOPQRSTUVWXYZ'' ''abcdefghijklmnopqrstuvwxyz'') c of
        Some l \<Rightarrow> l
      | None \<Rightarrow> c)"

definition upper :: "string \<Rightarrow> string" where
  "upper s = map upper_char s"

definition lower :: "string \<Rightarrow> string" where
  "lower s = map lower_char s"

section \<open>voice\_bridge.py\<close>

text \<open>
  The class attribute \<open>ELEVENLABS_TO_PERSONAPLEX\<close>, a dict literal, as the list of its
  items in insertion order.
\<close>

definition ELEVENLABS_TO_PERSONAPLEX :: "(string \<times> string) list" where
  "ELEVENLABS_TO_PERSONAPLEX =
    [(''rachel'', ''NATF2''), (''adam'', ''NATM1''), (''george'', ''NATM0''),
     (''alice'', ''NATF1''), (''brian'', ''NATM2''), (''charlie'', ''NATM3''),
     (''daniel'', ''VARM0''),
     (''bella'', ''NATF3''), (''elli'', ''NATF0''), (''josh'', ''VARM1''),
     (''arnold'', ''VARM2''), (''sam'', ''VARM3''), (''domi'', ''VARF0''),
     (''grace'', ''VARF1''), (''glinda'', ''VARF3''), (''serena'', ''VARF2''),
     (''emily'', ''VARF4''), (''ethan'', ''VARM4'')]"

record preset_info =
  gender :: string
  category :: string
  character :: string

definition PRESET_INFO :: "(string \<times> preset_info) list" where
  "PRESET_INFO =
    [(''NATF0'', \<lparr>gender = ''female'', category = ''natural'', character = ''Clear, professional''\<rparr>),
     (''NATF1'', \<lparr>gender = ''female'', category = ''natural'', character = ''Warm, approachable''\<rparr>),
     (''NATF2'', \<lparr>gender = ''female'', category = ''natural'', character = ''Friendly, engaging''\<rparr>),
     (''NATF3'', \<lparr>gender = ''female'', category = ''natural'', character = ''Calm, measured''\<rparr>),
     (''NATM0'', \<lparr>gender = ''male'', category = ''natural'', character = ''Deep, authoritative''\<rparr>),
     (''NATM1'', \<lparr>gender = ''male'', category = ''natural'', character = ''Smooth, narrative''\<rparr>),
     (''NATM2'', \<lparr>gender = ''male'', category = ''natural'', character = ''Calm, reassuring''\<rparr>),
     (''NATM3'', \<lparr>gender = ''male'', category = ''natural'', character = ''Energetic, clear''\<rparr>),
     (''VARF0'', \<lparr>gender = ''female'', category = ''variety'', character = ''Bright, energetic''\<rparr>),
     (''VARF1'', \<lparr>gender = ''female'', category = ''variety'', character = ''Soft, gentle''\<rparr>),
     (''VARF2'', \<lparr>gender = ''female'', category = ''variety'', character = ''Confident, bold''\<rparr>),
     (''VARF3'', \<lparr>gender = ''female'', category = ''variety'', character = ''Warm, motherly''\<rparr>),
     (''VARF4'', \<lparr>gender = ''female'', category = ''variety'', character = ''Youthful, dynamic''\<rparr>),
     (''VARM0'', \<lparr>gender = ''male'', category = ''variety'', character = ''Rich, baritone''\<rparr>),
     (''VARM1'', \<lparr>gender = ''male'', category = ''variety'', character = ''Light, friendly''\<rparr>),
     (''VARM2'', \<lparr>gender = ''male'', category = ''variety'', character = ''Gruff, textured''\<rparr>),
     (''VARM3'', \<lparr>gender = ''male'', category = ''variety'', character = ''Smooth, refined''\<rparr>),
     (''VARM4'', \<lparr>gender = ''male'', category = ''variety'', character = ''Casual, relaxed''\<rparr>)]"

text \<open>
  \<open>VoiceBridge.__init__\<close>: the loop over the items that builds \<open>_pp_to_el\<close>; a preset
  already present keeps its first ElevenLabs name.
\<close>

fun build_pp_to_el :: "(string \<times> string) list \<Rightarrow> (string \<times> string) list \<Rightarrow> (string \<times> string) list" where
  "build_pp_to_el acc [] = acc"
| "build_pp_to_el acc ((el_name, pp_name) # rest) =
     build_pp_to_el (if map_of acc pp_name = None then acc @ [(pp_name, el_name)] else acc) rest"

definition pp_to_el :: "(string \<times> string) list" where
  "pp_to_el = build_pp_to_el [] ELEVENLABS_TO_PERSONAPLEX"

definition get_personaplex_voice :: "string \<Rightarrow> string option" where
  "get_personaplex_voice name =
     (if map_of PRESET_INFO (upper name) \<noteq> None then Some (upper name)
      else map_of ELEVENLABS_TO_PERSONAPLEX (lower name))"

definition get_elevenlabs_voice :: "string \<Rightarrow> string option" where
  "get_elevenlabs_voice name =
     (if map_of ELEVENLABS_TO_PERSONAPLEX (lower name) \<noteq> None then Some (lower name)
      else map_of pp_to_el (upper name))"

section \<open>connect.py\<close>

text \<open>
  A session is modelled as the asyncio event loop runs it: one coroutine at a time, from
  one \<open>await\<close> to the next. The state of a session is a record; what the loop delivers
  (the end of an \<open>await\<close>, a callback, a signal, the duration limit) is an event, each
  event is a function on states, and a run is a fold over a list of events. What the
  libraries do comes from outside: from the environment for the imports, the audio
  streams and \<open>json\<close>, from the events for the network and the microphone. Taken of the
  libraries: \<open>close()\<close> on the connection and \<open>write()\<close> on the output stream return, and
  a cancellation is \<open>asyncio.CancelledError\<close>, which is not an \<open>Exception\<close> (Python 3.8
  and later; the annotations of the program need 3.10).
\<close>

subsection \<open>Values of the library boundary\<close>

text \<open>
  Audio data (\<open>bytes\<close>) is a list of octets. \<open>py_value\<close> is what \<open>json.loads\<close>
  returns and what \<open>json.dumps\<close> and the f-strings of the log calls take; a dict is
  the list of its items, keys distinct. \<open>exn\<close> lists the subclasses of \<open>Exception\<close>
  the program can meet: \<open>TimeoutError\<close> is \<open>asyncio.TimeoutError\<close>, and \<open>Other\<close> is any
  exception of a library (a closed connection, a refused socket, a device error), by name.
\<close>

type_synonym bytes = "8 word list"

datatype py_value =
    PyNone
  | PyBool bool
  | PyInt int
  | PyFloat real
  | PyStr string
  | PyList "py_value list"
  | PyDict "(string \<times> py_value) list"

datatype exn = TimeoutError | TypeError | KeyError | AttributeError | QueueFull | Other string

text \<open>\<open>key in data\<close> and \<open>data[key]\<close> for a string key, on every type json.loads can return.\<close>

fun py_contains :: "string \<Rightarrow> py_value \<Rightarrow> exn + bool" where
  "py_contains k (PyDict d) = Inr (k \<in> fst ` set d)"
| "py_contains k (PyList xs) = Inr (PyStr k \<in> set xs)"
| "py_contains k (PyStr t) = Inr (sublist k t)"
| "py_contains k PyNone = Inl TypeError"
| "py_contains k (PyBool b) = Inl TypeError"
| "py_contains k (PyInt i) = Inl TypeError"
| "py_contains k (PyFloat x) = Inl TypeError"

fun py_getitem :: "py_value \<Rightarrow> string \<Rightarrow> exn + py_value" where
  "py_getitem (PyDict d) k = (case map_of d k of Some v \<Rightarrow> Inr v | None \<Rightarrow> Inl KeyError)"
| "py_getitem PyNone k = Inl TypeError"
| "py_getitem (PyBool b) k = Inl TypeError"
| "py_getitem (PyInt i) k = Inl TypeError"
| "py_getitem (PyFloat x) k = Inl TypeError"
| "py_getitem (PyStr t) k = Inl TypeError"
| "py_getitem (PyList xs) k = Inl TypeError"

text \<open>
  \<open>asyncio.Queue\<close>: \<open>maxsize \<le> 0\<close> means no bound; \<open>put_nowait\<close> raises \<open>QueueFull\<close> on a
  full queue and appends otherwise; \<open>get\<close> takes the oldest item.
\<close>

record 'a queue =
  maxsize :: int
  items :: "'a list"

definition Queue :: "int \<Rightarrow> 'a queue" where
  "Queue m = \<lparr>maxsize = m, items = []\<rparr>"

definition qsize :: "'a queue \<Rightarrow> nat" where
  "qsize q = length (items q)"

definition full :: "'a queue \<Rightarrow> bool" where
  "full q = (if maxsize q \<le> 0 then False else maxsize q \<le> int (qsize q))"

definition put_nowait :: "'a queue \<Rightarrow> 'a \<Rightarrow> exn + 'a queue" where
  "put_nowait q x = (if full q then Inl QueueFull else Inr (q\<lparr>items := items q @ [x]\<rparr>))"

definition get_nowait :: "'a queue \<Rightarrow> ('a \<times> 'a queue) option" where
  "get_nowait q = (case items q of [] \<Rightarrow> None | x # xs \<Rightarrow> Some (x, q\<lparr>items := xs\<rparr>))"

text \<open>
  The environment of one session: the two functions of the \<open>json\<close> module the program
  calls (\<open>json_loads\<close> is \<open>None\<close> where \<open>json.loads\<close> raises \<open>JSONDecodeError\<close>), whether
  the imports of \<open>websockets\<close> and \<open>sounddevice\<close> succeed, and how opening each audio
  stream ends.
\<close>

datatype stream_open = Opens | Create_Raises exn | Start_Raises exn

record env =
  json_dumps :: "py_value \<Rightarrow> string"
  json_loads :: "string \<Rightarrow> py_value option"
  websockets :: bool
  sounddevice :: bool
  input_stream :: stream_open
  output_stream :: stream_open

subsection \<open>Constants\<close>

definition VOICE_PRESETS :: "string list" where
  "VOICE_PRESETS =
    [''NATF0'', ''NATF1'', ''NATF2'', ''NATF3'',
     ''NATM0'', ''NATM1'', ''NATM2'', ''NATM3'',
     ''VARF0'', ''VARF1'', ''VARF2'', ''VARF3'', ''VARF4'',
     ''VARM0'', ''VARM1'', ''VARM2'', ''VARM3'', ''VARM4'']"

definition SAMPLE_RATE :: nat where
  "SAMPLE_RATE = 24000"

definition CHANNELS :: nat where
  "CHANNELS = 1"

definition CHUNK_DURATION_MS :: nat where
  "CHUNK_DURATION_MS = 80"

text \<open>\<open>int(SAMPLE_RATE * CHUNK_DURATION_MS / 1000)\<close>; the quotient is exact.\<close>

definition CHUNK_SIZE :: nat where
  "CHUNK_SIZE = SAMPLE_RATE * CHUNK_DURATION_MS div 1000"

text \<open>
  The length of one block of the input stream: \<open>blocksize = CHUNK_SIZE\<close> frames of
  \<open>CHANNELS\<close> samples of \<open>dtype = "int16"\<close>, two octets each.
\<close>

definition block_bytes :: nat where
  "block_bytes = CHUNK_SIZE * CHANNELS * 2"

subsection \<open>State\<close>

datatype wire_msg = Text string | Binary bytes

datatype level = DEBUG | INFO | WARNING | ERROR

text \<open>One constructor for each log call of the modelled functions, with the values it formats.\<close>

datatype log_msg =
    Voice_not_in_presets string
  | Websockets_required
  | Connecting_to string
  | Connected_to_server
  | Sent_config string bool
  | Sounddevice_required
  | Starting_audio_capture "int option"
  | Audio_input_status
  | Audio_capture_started
  | Error_sending_audio exn
  | Audio_capture_stopped
  | Starting_audio_playback "int option"
  | Audio_playback_started
  | Agent py_value
  | Server_error py_value
  | Server_message py_value
  | Error_receiving_audio exn
  | Audio_playback_stopped
  | Connection_error exn
  | Shutting_down

datatype status = Connected | Completed | Disconnected | Timeout | Error

text \<open>The dict \<open>result\<close> of \<open>clawdbot_connect\<close>; \<open>error\<close> is absent until it is set.\<close>

record result =
  status :: status
  server :: string
  res_voice :: string
  res_text_prompt :: string
  error :: "exn option"

text \<open>
  The coroutines are suspended at their \<open>await\<close>s. \<open>run_pc\<close> is where \<open>run()\<close> (under
  \<open>clawdbot_connect\<close>) stands: not called yet, in \<open>websockets.connect\<close>, in the send of
  the configuration, in \<open>asyncio.gather\<close>, finished, or the process has exited
  (\<open>sys.exit\<close>, an unhandled signal). \<open>pump_pc\<close> is where \<open>send_audio\<close> or
  \<open>receive_audio\<close> stands: not started, waiting in \<open>asyncio.wait_for\<close> (on the queue or
  on \<open>recv\<close>), in the send of a chunk, returned, or ended by an exception.
\<close>

datatype run_pc = Run_Idle | Run_Connect | Run_Config | Run_Gather | Run_Done | Run_Exit

datatype pump_pc = Not_Started | Waiting | Sending bytes | Exited | Raised exn

text \<open>
  The attributes of \<open>PersonaPlexClient\<close> (\<open>ws\<close>, \<open>audio_in_stream\<close> and
  \<open>audio_out_stream\<close> say that the attribute is not \<open>None\<close>), what the session has done
  to the outside (messages sent, calls of \<open>close()\<close> on the connection, buffers written
  to the output stream, log records), the queue of \<open>send_audio\<close>, the control points,
  and the locals of \<open>clawdbot_connect\<close>.
\<close>

record session =
  server_url :: string
  voice :: string
  text_prompt :: string
  input_device :: "int option"
  output_device :: "int option"
  running :: bool
  ws :: bool
  audio_in_stream :: bool
  audio_out_stream :: bool
  sent :: "wire_msg list"
  closes :: nat
  played :: "bytes list"
  logged :: "(level \<times> log_msg) list"
  audio_queue :: "bytes queue"
  run_pc :: run_pc
  up_pc :: pump_pc
  down_pc :: pump_pc
  signal_handlers :: bool
  duration_seconds :: "real option"
  result :: result
  returned :: bool

definition logger :: "level \<Rightarrow> log_msg \<Rightarrow> session \<Rightarrow> session" where
  "logger l m s = s\<lparr>logged := logged s @ [(l, m)]\<rparr>"

text \<open>The truth value of \<open>duration_seconds\<close>: \<open>None\<close> and \<open>0.0\<close> are false.\<close>

definition truthy :: "real option \<Rightarrow> bool" where
  "truthy d = (case d of None \<Rightarrow> False | Some x \<Rightarrow> x \<noteq> 0)"

subsection \<open>PersonaPlexClient\<close>

text \<open>\<open>__init__\<close>: the attributes, the warning for an unknown preset; nothing has run yet.\<close>

definition PersonaPlexClient ::
  "string \<Rightarrow> string \<Rightarrow> string \<Rightarrow> int option \<Rightarrow> int option \<Rightarrow> session" where
  "PersonaPlexClient url v prompt in_dev out_dev =
     (let s = \<lparr>server_url = url, voice = upper v, text_prompt = prompt,
                input_device = in_dev, output_device = out_dev,
                running = False, ws = False,
                audio_in_stream = False, audio_out_stream = False,
                sent = [], closes = 0, played = [], logged = [],
                audio_queue = Queue 0,
                run_pc = Run_Idle, up_pc = Not_Started, down_pc = Not_Started,
                signal_handlers = False, duration_seconds = None,
                result = \<lparr>status = Connected, server = [], res_voice = [],
                           res_text_prompt = [], error = None\<rparr>,
                returned = False\<rparr>
      in if upper v \<notin> set VOICE_PRESETS then logger WARNING (Voice_not_in_presets (upper v)) s
         else s)"

text \<open>The dict \<open>config\<close> that \<open>connect\<close> builds and passes to \<open>json.dumps\<close>.\<close>

definition config :: "session \<Rightarrow> (string \<times> py_value) list" where
  "config s =
     [(''voice_prompt'', PyStr (voice s @ ''.pt''))] @
     (if text_prompt s \<noteq> [] then [(''text_prompt'', PyStr (text_prompt s))] else [])"

text \<open>
  \<open>stop\<close>. The \<open>await\<close> of \<open>close()\<close> is taken as one step with the rest of the body:
  \<open>running\<close> is already false when it is reached, so no other coroutine reads \<open>_ws\<close>
  before it is set to \<open>None\<close>; \<open>close()\<close> is taken to return.
\<close>

definition stop :: "session \<Rightarrow> session" where
  "stop s =
     (if \<not> running s then s
      else let s1 = logger INFO Shutting_down (s\<lparr>running := False\<rparr>)
           in if ws s1 then s1\<lparr>closes := Suc (closes s1), ws := False\<rparr> else s1)"

text \<open>
  \<open>send_audio\<close>: the \<open>finally\<close> block, the head of the \<open>while\<close> loop, the two
  \<open>except\<close> clauses of the loop, and the part before the loop.
\<close>

definition send_audio_finally :: "session \<Rightarrow> session" where
  "send_audio_finally s =
     (if audio_in_stream s then logger INFO Audio_capture_stopped s else s)\<lparr>up_pc := Exited\<rparr>"

definition send_audio_loop :: "session \<Rightarrow> session" where
  "send_audio_loop s = (if running s then s\<lparr>up_pc := Waiting\<rparr> else send_audio_finally s)"

definition send_audio_except :: "exn \<Rightarrow> session \<Rightarrow> session" where
  "send_audio_except e s =
     (if e = TimeoutError then send_audio_loop s
      else send_audio_finally (if running s then logger ERROR (Error_sending_audio e) s else s))"

definition send_audio :: "env \<Rightarrow> session \<Rightarrow> session" where
  "send_audio E s =
     (if \<not> sounddevice E then (logger ERROR Sounddevice_required s)\<lparr>up_pc := Exited\<rparr>
      else
        let s1 = (logger INFO (Starting_audio_capture (input_device s)) s)\<lparr>audio_queue := Queue 0\<rparr>
        in case input_stream E of
             Create_Raises e \<Rightarrow> s1\<lparr>up_pc := Raised e\<rparr>
           | Start_Raises e \<Rightarrow>
               (logger INFO Audio_capture_stopped (s1\<lparr>audio_in_stream := True\<rparr>))\<lparr>up_pc := Raised e\<rparr>
           | Opens \<Rightarrow>
               send_audio_loop (logger INFO Audio_capture_started (s1\<lparr>audio_in_stream := True\<rparr>)))"

text \<open>
  \<open>audio_callback\<close>, with the \<open>put_nowait\<close> it schedules on the loop; an exception of
  a scheduled callback does not reach the program.
\<close>

definition audio_callback :: "bytes \<Rightarrow> bool \<Rightarrow> session \<Rightarrow> session" where
  "audio_callback indata stat s =
     (let s1 = (if stat then logger WARNING Audio_input_status s else s)
      in case put_nowait (audio_queue s1) indata of
           Inr q \<Rightarrow> s1\<lparr>audio_queue := q\<rparr>
         | Inl e \<Rightarrow> s1)"

text \<open>
  The end of \<open>wait_for(audio_queue.get(), timeout=1.0)\<close>: \<open>TimeoutError\<close> on an empty
  queue, the oldest chunk otherwise, which is sent if the client has a connection and is
  running.
\<close>

definition queue_wake :: "session \<Rightarrow> session" where
  "queue_wake s =
     (case get_nowait (audio_queue s) of
        None \<Rightarrow> send_audio_except TimeoutError s
      | Some (audio_data, q) \<Rightarrow>
          let s1 = s\<lparr>audio_queue := q\<rparr>
          in if ws s1 \<and> running s1 then s1\<lparr>up_pc := Sending audio_data\<rparr> else send_audio_loop s1)"

text \<open>The end of \<open>self._ws.send(audio_data)\<close>.\<close>

definition send_done :: "bytes \<Rightarrow> exn option \<Rightarrow> session \<Rightarrow> session" where
  "send_done audio_data r s =
     (case r of
        None \<Rightarrow> send_audio_loop (s\<lparr>sent := sent s @ [Binary audio_data]\<rparr>)
      | Some e \<Rightarrow> send_audio_except e s)"

text \<open>\<open>receive_audio\<close>, in the same parts.\<close>

definition receive_audio_finally :: "session \<Rightarrow> session" where
  "receive_audio_finally s =
     (if audio_out_stream s then logger INFO Audio_playback_stopped s else s)\<lparr>down_pc := Exited\<rparr>"

definition receive_audio_loop :: "session \<Rightarrow> session" where
  "receive_audio_loop s =
     (if running s then
        (if ws s then s\<lparr>down_pc := Waiting\<rparr>
         else receive_audio_finally (logger ERROR (Error_receiving_audio AttributeError) s))
      else receive_audio_finally s)"

definition receive_audio_except :: "exn \<Rightarrow> session \<Rightarrow> session" where
  "receive_audio_except e s =
     (if e = TimeoutError then receive_audio_loop s
      else receive_audio_finally
             (if running s then logger ERROR (Error_receiving_audio e) s else s))"

definition receive_audio :: "env \<Rightarrow> session \<Rightarrow> session" where
  "receive_audio E s =
     (if \<not> sounddevice E then (logger ERROR Sounddevice_required s)\<lparr>down_pc := Exited\<rparr>
      else
        let s1 = logger INFO (Starting_audio_playback (output_device s)) s
        in case output_stream E of
             Create_Raises e \<Rightarrow> s1\<lparr>down_pc := Raised e\<rparr>
           | Start_Raises e \<Rightarrow>
               (logger INFO Audio_playback_stopped (s1\<lparr>audio_out_stream := True\<rparr>))\<lparr>down_pc := Raised e\<rparr>
           | Opens \<Rightarrow>
               receive_audio_loop
                 (logger INFO Audio_playback_started (s1\<lparr>audio_out_stream := True\<rparr>)))"

text \<open>
  The branch for a \<open>str\<close> message: the inner \<open>try\<close> with its \<open>except JSONDecodeError\<close>.
  Any other exception leaves the block (\<open>Inl\<close>).
\<close>

definition on_text :: "env \<Rightarrow> string \<Rightarrow> session \<Rightarrow> exn + session" where
  "on_text E message s =
     (case json_loads E message of
        None \<Rightarrow> Inr (logger INFO (Agent (PyStr message)) s)
      | Some data \<Rightarrow>
          (case py_contains ''text'' data of
             Inl e \<Rightarrow> Inl e
           | Inr True \<Rightarrow>
               (case py_getitem data ''text'' of
                  Inl e \<Rightarrow> Inl e
                | Inr v \<Rightarrow> Inr (logger INFO (Agent v) s))
           | Inr False \<Rightarrow>
               (case py_contains ''error'' data of
                  Inl e \<Rightarrow> Inl e
                | Inr True \<Rightarrow>
                    (case py_getitem data ''error'' of
                       Inl e \<Rightarrow> Inl e
                     | Inr v \<Rightarrow> Inr (logger ERROR (Server_error v) s))
                | Inr False \<Rightarrow> Inr (logger DEBUG (Server_message data) s))))"

text \<open>The end of \<open>wait_for(self._ws.recv(), timeout=1.0)\<close> and the rest of the iteration.\<close>

datatype recv = Recv_Bytes bytes | Recv_Str string | Recv_Raises exn

definition recv_done :: "env \<Rightarrow> recv \<Rightarrow> session \<Rightarrow> session" where
  "recv_done E r s =
     (case r of
        Recv_Raises e \<Rightarrow> receive_audio_except e s
      | Recv_Bytes message \<Rightarrow> receive_audio_loop (s\<lparr>played := played s @ [message]\<rparr>)
      | Recv_Str message \<Rightarrow>
          (case on_text E message s of
             Inl e \<Rightarrow> receive_audio_except e s
           | Inr s1 \<Rightarrow> receive_audio_loop s1))"

subsection \<open>run and clawdbot\_connect\<close>

text \<open>
  \<open>run()\<close> has returned to \<open>clawdbot_connect\<close>, which sets the status after the
  \<open>await\<close> of its \<open>try\<close> block and returns \<open>result\<close>.
\<close>

definition run_returns :: "session \<Rightarrow> session" where
  "run_returns s =
     s\<lparr>result := (result s)\<lparr>status := (if truthy (duration_seconds s) then Completed
                                          else Disconnected)\<rparr>,
       returned := True, run_pc := Run_Done\<rparr>"

text \<open>
  An exception leaves \<open>run()\<close> (from \<open>connect\<close>, which is outside the \<open>try\<close> of
  \<open>run\<close>) and meets the \<open>except\<close> clauses of \<open>clawdbot_connect\<close>.
\<close>

definition run_raises :: "exn \<Rightarrow> session \<Rightarrow> session" where
  "run_raises e s =
     (if e = TimeoutError
      then (stop (s\<lparr>result := (result s)\<lparr>status := Timeout\<rparr>\<rparr>))\<lparr>returned := True, run_pc := Run_Done\<rparr>
      else s\<lparr>result := (result s)\<lparr>status := Error, error := Some e\<rparr>,
             returned := True, run_pc := Run_Done\<rparr>)"

text \<open>
  \<open>asyncio.gather\<close> is over when both pumps have returned; \<open>run\<close> then goes through
  its \<open>finally\<close> and returns.
\<close>

definition gather_done :: "session \<Rightarrow> session" where
  "gather_done s =
     (if run_pc s = Run_Gather \<and> up_pc s = Exited \<and> down_pc s = Exited
      then run_returns (stop s) else s)"

text \<open>
  The start of \<open>asyncio.gather\<close>: both coroutines run up to their first \<open>await\<close>. An
  exception of one of them (the first, if both raise) reaches the \<open>except\<close> of \<open>run\<close>
  while the other pump keeps its place.
\<close>

definition first_raised :: "session \<Rightarrow> exn option" where
  "first_raised s =
     (case up_pc s of
        Raised e \<Rightarrow> Some e
      | _ \<Rightarrow> (case down_pc s of Raised e \<Rightarrow> Some e | _ \<Rightarrow> None))"

definition gather :: "env \<Rightarrow> session \<Rightarrow> session" where
  "gather E s =
     (let s1 = receive_audio E (send_audio E s)
      in case first_raised s1 of
           Some e \<Rightarrow> run_returns (stop (logger ERROR (Connection_error e) s1))
         | None \<Rightarrow> gather_done s1)"

text \<open>The start of \<open>run\<close>: \<open>connect\<close> up to the \<open>await\<close> of \<open>websockets.connect\<close>.\<close>

definition run :: "env \<Rightarrow> session \<Rightarrow> session" where
  "run E s =
     (if \<not> websockets E then (logger ERROR Websockets_required s)\<lparr>run_pc := Run_Exit\<rparr>
      else (logger INFO (Connecting_to (server_url s)) s)\<lparr>run_pc := Run_Connect\<rparr>)"

text \<open>The end of \<open>websockets.connect\<close>, up to the \<open>await\<close> of the send of the configuration.\<close>

definition connect_done :: "exn option \<Rightarrow> session \<Rightarrow> session" where
  "connect_done r s =
     (case r of
        Some e \<Rightarrow> run_raises e s
      | None \<Rightarrow> (logger INFO Connected_to_server (s\<lparr>ws := True, running := True\<rparr>))\<lparr>run_pc := Run_Config\<rparr>)"

text \<open>
  The end of \<open>self._ws.send(json.dumps(config))\<close>, the rest of \<open>connect\<close>, the signal
  handlers and the start of the pumps.
\<close>

definition config_sent :: "env \<Rightarrow> exn option \<Rightarrow> session \<Rightarrow> session" where
  "config_sent E r s =
     (case r of
        Some e \<Rightarrow> run_raises e s
      | None \<Rightarrow>
          gather E
            ((logger INFO (Sent_config (voice s) (text_prompt s \<noteq> []))
                (s\<lparr>sent := sent s @ [Text (json_dumps E (PyDict (config s)))]\<rparr>))
               \<lparr>signal_handlers := True, run_pc := Run_Gather\<rparr>))"

text \<open>
  The duration limit of \<open>asyncio.wait_for(client.run(), timeout=duration_seconds)\<close>:
  \<open>run\<close> is cancelled where it stands. In \<open>gather\<close> the cancellation reaches both pumps,
  whose \<open>except Exception\<close> does not catch it, so each goes through its \<open>finally\<close>, and
  then \<open>run\<close> goes through its own, which calls \<open>stop\<close>. In \<open>connect\<close> there is no
  \<open>finally\<close> on the way. \<open>wait_for\<close> raises \<open>TimeoutError\<close>, and the handler of
  \<open>clawdbot_connect\<close> sets the status and calls \<open>stop\<close>.
\<close>

definition cancel_pumps :: "session \<Rightarrow> session" where
  "cancel_pumps s =
     (let s1 = (case up_pc s of
                  Waiting \<Rightarrow> send_audio_finally s
                | Sending c \<Rightarrow> send_audio_finally s
                | _ \<Rightarrow> s)
      in if down_pc s1 = Waiting then receive_audio_finally s1 else s1)"

definition duration_elapsed :: "session \<Rightarrow> session" where
  "duration_elapsed s =
     (let s1 = (if run_pc s = Run_Gather then stop (cancel_pumps s) else s);
          s2 = s1\<lparr>result := (result s1)\<lparr>status := Timeout\<rparr>\<rparr>
      in (stop s2)\<lparr>returned := True, run_pc := Run_Done\<rparr>)"

text \<open>
  What the event loop delivers. Each event ends one \<open>await\<close> or is a callback; an event
  that nothing is waiting for changes nothing. A signal before the handlers of \<open>run\<close>
  are installed ends the process.
\<close>

datatype event =
    Connect_Done "exn option"
  | Config_Sent "exn option"
  | Capture bytes bool
  | Queue_Wake
  | Send_Done "exn option"
  | Recv_Done recv
  | Signal
  | Duration_Elapsed

definition capturing :: "session \<Rightarrow> bool" where
  "capturing s = (case up_pc s of Waiting \<Rightarrow> True | Sending c \<Rightarrow> True | _ \<Rightarrow> False)"

definition step :: "env \<Rightarrow> event \<Rightarrow> session \<Rightarrow> session" where
  "step E ev s =
     (if run_pc s = Run_Exit then s
      else case ev of
        Connect_Done r \<Rightarrow> if run_pc s = Run_Connect then connect_done r s else s
      | Config_Sent r \<Rightarrow> if run_pc s = Run_Config then config_sent E r s else s
      | Capture indata stat \<Rightarrow> if capturing s then audio_callback indata stat s else s
      | Queue_Wake \<Rightarrow> if up_pc s = Waiting then gather_done (queue_wake s) else s
      | Send_Done r \<Rightarrow>
          (case up_pc s of
             Sending audio_data \<Rightarrow> gather_done (send_done audio_data r s)
           | _ \<Rightarrow> s)
      | Recv_Done r \<Rightarrow> if down_pc s = Waiting then gather_done (recv_done E r s) else s
      | Signal \<Rightarrow> if signal_handlers s then stop s else s\<lparr>run_pc := Run_Exit\<rparr>
      | Duration_Elapsed \<Rightarrow>
          if truthy (duration_seconds s) \<and> run_pc s \<in> {Run_Connect, Run_Config, Run_Gather}
          then duration_elapsed s else s)"

definition exec :: "env \<Rightarrow> event list \<Rightarrow> session \<Rightarrow> session" where
  "exec E evs s = fold (step E) evs s"

text \<open>
  \<open>clawdbot_connect\<close>: the client, the dict \<open>result\<close>, the call of \<open>run\<close>, and then the
  events of the loop in their order. The dict is returned once \<open>returned\<close> holds.
\<close>

definition clawdbot_connect ::
  "env \<Rightarrow> string \<Rightarrow> string \<Rightarrow> string \<Rightarrow> real option \<Rightarrow> event list \<Rightarrow> session" where
  "clawdbot_connect E url v prompt duration evs =
     (let client = PersonaPlexClient url v prompt None None;
          s = client\<lparr>duration_seconds := duration,
                     result := \<lparr>status = Connected, server = url, res_voice = v,
                                res_text_prompt = (if 100 < length prompt then take 100 prompt @ ''...''
                                                   else prompt),
                                error = None\<rparr>\<rparr>
      in exec E evs (run E s))"

subsection \<open>An environment for concrete runs\<close>

text \<open>
  The environment in which the runs below are evaluated: both imports succeed, both audio
  streams open, \<open>json.dumps\<close> gives a fixed text, and \<open>json.loads\<close> is the decoder
  given, which says what \<open>json.loads\<close> returns for the texts of the run.
\<close>

abbreviation env_ok :: "(string \<Rightarrow> py_value option) \<Rightarrow> env" where
  "env_ok loads \<equiv>
     \<lparr>json_dumps = (\<lambda>d. ''config''), json_loads = loads, websockets = True,
      sounddevice = True, input_stream = Opens, output_stream = Opens\<rparr>"

text \<open>A session in that environment, by its decoder, its duration limit and its events.\<close>

abbreviation run_of :: "(string \<Rightarrow> py_value option) \<Rightarrow> real option \<Rightarrow> event list \<Rightarrow> session" where
  "run_of loads d evs \<equiv>
     clawdbot_connect (env_ok loads) ''wss://localhost:8998/ws'' ''NATF2'' '''' d evs"

text \<open>The same after the connection is made and the configuration sent: both pumps wait.\<close>

abbreviation streaming :: "(string \<Rightarrow> py_value option) \<Rightarrow> real option \<Rightarrow> session" where
  "streaming loads d \<equiv> run_of loads d [Connect_Done None, Config_Sent None]"

section \<open>Invariants of a session\<close>

text \<open>
  \<open>audio_frame\<close> tells a binary message from a text message. \<open>session_inv\<close> collects what
  holds in every state \<open>clawdbot_connect\<close> reaches: the client has a connection exactly
  while it is running; the queue is the unbounded one; nothing is sent before the
  configuration, and everything sent after it is an audio frame; \<open>close()\<close> is called at
  most once, and it has been called when a session that sent its configuration is no
  longer running.
\<close>

definition audio_frame :: "wire_msg \<Rightarrow> bool" where
  "audio_frame m = (case m of Binary b \<Rightarrow> True | Text t \<Rightarrow> False)"

definition session_inv :: "env \<Rightarrow> session \<Rightarrow> bool" where
  "session_inv E s \<longleftrightarrow>
     ws s = running s \<and>
     maxsize (audio_queue s) = 0 \<and>
     run_pc s \<noteq> Run_Idle \<and>
     closes s \<le> 1 \<and>
     (running s \<longrightarrow> closes s = 0) \<and>
     (sent s \<noteq> [] \<longrightarrow> hd (sent s) = Text (json_dumps E (PyDict (config s))) \<and> list_all audio_frame (tl (sent s))) \<and>
     (sent s = [] \<longrightarrow> up_pc s = Not_Started \<and> down_pc s = Not_Started \<and>
        \<not> signal_handlers s \<and> run_pc s \<noteq> Run_Gather) \<and>
     (sent s \<noteq> [] \<longrightarrow> signal_handlers s \<and> (run_pc s = Run_Gather \<or> run_pc s = Run_Done) \<and>
        (\<not> running s \<longrightarrow> closes s = 1) \<and> (run_pc s = Run_Done \<longrightarrow> \<not> running s)) \<and>
     (run_pc s = Run_Connect \<longrightarrow> \<not> running s \<and> closes s = 0) \<and>
     (run_pc s = Run_Config \<longrightarrow> running s \<and> sent s = []) \<and>
     (run_pc s = Run_Done \<longrightarrow> returned s) \<and>
     (returned s \<longrightarrow> run_pc s = Run_Done \<or> run_pc s = Run_Exit)"

subsection \<open>What each operation changes\<close>

text \<open>
  For each operation, every field the invariants and the claims read, after the operation
  in terms of the state before it. With these rules a proof about a composed step never
  unfolds the log calls and the branches that only log.
\<close>

lemma logger_fields [simp]:
  "voice (logger l m s) = voice s"
  "text_prompt (logger l m s) = text_prompt s"
  "duration_seconds (logger l m s) = duration_seconds s"
  "running (logger l m s) = running s"
  "ws (logger l m s) = ws s"
  "sent (logger l m s) = sent s"
  "closes (logger l m s) = closes s"
  "audio_queue (logger l m s) = audio_queue s"
  "run_pc (logger l m s) = run_pc s"
  "up_pc (logger l m s) = up_pc s"
  "down_pc (logger l m s) = down_pc s"
  "signal_handlers (logger l m s) = signal_handlers s"
  "result (logger l m s) = result s"
  "returned (logger l m s) = returned s"
  by (simp_all add: logger_def)

lemma stop_fields [simp]:
  "voice (stop s) = voice s"
  "text_prompt (stop s) = text_prompt s"
  "duration_seconds (stop s) = duration_seconds s"
  "running (stop s) = False"
  "ws (stop s) = (ws s \<and> \<not> running s)"
  "sent (stop s) = sent s"
  "closes (stop s) = (if running s \<and> ws s then Suc (closes s) else closes s)"
  "audio_queue (stop s) = audio_queue s"
  "run_pc (stop s) = run_pc s"
  "up_pc (stop s) = up_pc s"
  "down_pc (stop s) = down_pc s"
  "signal_handlers (stop s) = signal_handlers s"
  "result (stop s) = result s"
  "returned (stop s) = returned s"
  by (simp_all add: stop_def Let_def)

lemma send_audio_finally_fields [simp]:
  "voice (send_audio_finally s) = voice s"
  "text_prompt (send_audio_finally s) = text_prompt s"
  "duration_seconds (send_audio_finally s) = duration_seconds s"
  "running (send_audio_finally s) = running s"
  "ws (send_audio_finally s) = ws s"
  "sent (send_audio_finally s) = sent s"
  "closes (send_audio_finally s) = closes s"
  "audio_queue (send_audio_finally s) = audio_queue s"
  "run_pc (send_audio_finally s) = run_pc s"
  "up_pc (send_audio_finally s) = Exited"
  "down_pc (send_audio_finally s) = down_pc s"
  "signal_handlers (send_audio_finally s) = signal_handlers s"
  "result (send_audio_finally s) = result s"
  "returned (send_audio_finally s) = returned s"
  by (simp_all add: send_audio_finally_def)

lemma send_audio_loop_fields [simp]:
  "voice (send_audio_loop s) = voice s"
  "text_prompt (send_audio_loop s) = text_prompt s"
  "duration_seconds (send_audio_loop s) = duration_seconds s"
  "running (send_audio_loop s) = running s"
  "ws (send_audio_loop s) = ws s"
  "sent (send_audio_loop s) = sent s"
  "closes (send_audio_loop s) = closes s"
  "audio_queue (send_audio_loop s) = audio_queue s"
  "run_pc (send_audio_loop s) = run_pc s"
  "up_pc (send_audio_loop s) = (if running s then Waiting else Exited)"
  "down_pc (send_audio_loop s) = down_pc s"
  "signal_handlers (send_audio_loop s) = signal_handlers s"
  "result (send_audio_loop s) = result s"
  "returned (send_audio_loop s) = returned s"
  by (simp_all add: send_audio_loop_def)

lemma send_audio_except_fields [simp]:
  "voice (send_audio_except e s) = voice s"
  "text_prompt (send_audio_except e s) = text_prompt s"
  "duration_seconds (send_audio_except e s) = duration_seconds s"
  "running (send_audio_except e s) = running s"
  "ws (send_audio_except e s) = ws s"
  "sent (send_audio_except e s) = sent s"
  "closes (send_audio_except e s) = closes s"
  "audio_queue (send_audio_except e s) = audio_queue s"
  "run_pc (send_audio_except e s) = run_pc s"
  "up_pc (send_audio_except e s) = (if e = TimeoutError \<and> running s then Waiting else Exited)"
  "down_pc (send_audio_except e s) = down_pc s"
  "signal_handlers (send_audio_except e s) = signal_handlers s"
  "result (send_audio_except e s) = result s"
  "returned (send_audio_except e s) = returned s"
  by (simp_all add: send_audio_except_def)

lemma send_audio_fields [simp]:
  "voice (send_audio E s) = voice s"
  "text_prompt (send_audio E s) = text_prompt s"
  "duration_seconds (send_audio E s) = duration_seconds s"
  "running (send_audio E s) = running s"
  "ws (send_audio E s) = ws s"
  "sent (send_audio E s) = sent s"
  "closes (send_audio E s) = closes s"
  "audio_queue (send_audio E s) = (if sounddevice E then Queue 0 else audio_queue s)"
  "run_pc (send_audio E s) = run_pc s"
  "up_pc (send_audio E s) =
     (if sounddevice E then (case input_stream E of Opens \<Rightarrow> (if running s then Waiting
        else Exited) | Create_Raises e \<Rightarrow> Raised e | Start_Raises e \<Rightarrow> Raised e) else Exited)"
  "down_pc (send_audio E s) = down_pc s"
  "signal_handlers (send_audio E s) = signal_handlers s"
  "result (send_audio E s) = result s"
  "returned (send_audio E s) = returned s"
  by (simp_all add: send_audio_def Let_def split: stream_open.splits)

lemma audio_callback_fields [simp]:
  "voice (audio_callback indata stat s) = voice s"
  "text_prompt (audio_callback indata stat s) = text_prompt s"
  "duration_seconds (audio_callback indata stat s) = duration_seconds s"
  "running (audio_callback indata stat s) = running s"
  "ws (audio_callback indata stat s) = ws s"
  "sent (audio_callback indata stat s) = sent s"
  "closes (audio_callback indata stat s) = closes s"
  "audio_queue (audio_callback indata stat s) =
     (case put_nowait (audio_queue s) indata of Inr q \<Rightarrow> q | Inl e \<Rightarrow> audio_queue s)"
  "run_pc (audio_callback indata stat s) = run_pc s"
  "up_pc (audio_callback indata stat s) = up_pc s"
  "down_pc (audio_callback indata stat s) = down_pc s"
  "signal_handlers (audio_callback indata stat s) = signal_handlers s"
  "result (audio_callback indata stat s) = result s"
  "returned (audio_callback indata stat s) = returned s"
  by (simp_all add: audio_callback_def Let_def split: sum.splits)

lemma queue_wake_fields [simp]:
  "voice (queue_wake s) = voice s"
  "text_prompt (queue_wake s) = text_prompt s"
  "duration_seconds (queue_wake s) = duration_seconds s"
  "running (queue_wake s) = running s"
  "ws (queue_wake s) = ws s"
  "sent (queue_wake s) = sent s"
  "closes (queue_wake s) = closes s"
  "audio_queue (queue_wake s) =
     (case get_nowait (audio_queue s) of None \<Rightarrow> audio_queue s | Some (c, q) \<Rightarrow> q)"
  "run_pc (queue_wake s) = run_pc s"
  "up_pc (queue_wake s) =
     (case get_nowait (audio_queue s) of None \<Rightarrow> (if running s then Waiting else Exited)
        | Some (c, q) \<Rightarrow> (if ws s \<and> running s then Sending c else if running s then Waiting
        else Exited))"
  "down_pc (queue_wake s) = down_pc s"
  "signal_handlers (queue_wake s) = signal_handlers s"
  "result (queue_wake s) = result s"
  "returned (queue_wake s) = returned s"
  by (simp_all add: queue_wake_def Let_def split: option.splits)

lemma send_done_fields [simp]:
  "voice (send_done c r s) = voice s"
  "text_prompt (send_done c r s) = text_prompt s"
  "duration_seconds (send_done c r s) = duration_seconds s"
  "running (send_done c r s) = running s"
  "ws (send_done c r s) = ws s"
  "sent (send_done c r s) = (case r of None \<Rightarrow> sent s @ [Binary c] | Some e \<Rightarrow> sent s)"
  "closes (send_done c r s) = closes s"
  "audio_queue (send_done c r s) = audio_queue s"
  "run_pc (send_done c r s) = run_pc s"
  "up_pc (send_done c r s) =
     (case r of None \<Rightarrow> (if running s then Waiting else Exited)
        | Some e \<Rightarrow> (if e = TimeoutError \<and> running s then Waiting else Exited))"
  "down_pc (send_done c r s) = down_pc s"
  "signal_handlers (send_done c r s) = signal_handlers s"
  "result (send_done c r s) = result s"
  "returned (send_done c r s) = returned s"
  by (simp_all add: send_done_def split: option.splits)

lemma receive_audio_finally_fields [simp]:
  "voice (receive_audio_finally s) = voice s"
  "text_prompt (receive_audio_finally s) = text_prompt s"
  "duration_seconds (receive_audio_finally s) = duration_seconds s"
  "running (receive_audio_finally s) = running s"
  "ws (receive_audio_finally s) = ws s"
  "sent (receive_audio_finally s) = sent s"
  "closes (receive_audio_finally s) = closes s"
  "audio_queue (receive_audio_finally s) = audio_queue s"
  "run_pc (receive_audio_finally s) = run_pc s"
  "up_pc (receive_audio_finally s) = up_pc s"
  "down_pc (receive_audio_finally s) = Exited"
  "signal_handlers (receive_audio_finally s) = signal_handlers s"
  "result (receive_audio_finally s) = result s"
  "returned (receive_audio_finally s) = returned s"
  by (simp_all add: receive_audio_finally_def)

lemma receive_audio_loop_fields [simp]:
  "voice (receive_audio_loop s) = voice s"
  "text_prompt (receive_audio_loop s) = text_prompt s"
  "duration_seconds (receive_audio_loop s) = duration_seconds s"
  "running (receive_audio_loop s) = running s"
  "ws (receive_audio_loop s) = ws s"
  "sent (receive_audio_loop s) = sent s"
  "closes (receive_audio_loop s) = closes s"
  "audio_queue (receive_audio_loop s) = audio_queue s"
  "run_pc (receive_audio_loop s) = run_pc s"
  "up_pc (receive_audio_loop s) = up_pc s"
  "down_pc (receive_audio_loop s) = (if running s \<and> ws s then Waiting else Exited)"
  "signal_handlers (receive_audio_loop s) = signal_handlers s"
  "result (receive_audio_loop s) = result s"
  "returned (receive_audio_loop s) = returned s"
  by (simp_all add: receive_audio_loop_def)

lemma receive_audio_except_fields [simp]:
  "voice (receive_audio_except e s) = voice s"
  "text_prompt (receive_audio_except e s) = text_prompt s"
  "duration_seconds (receive_audio_except e s) = duration_seconds s"
  "running (receive_audio_except e s) = running s"
  "ws (receive_audio_except e s) = ws s"
  "sent (receive_audio_except e s) = sent s"
  "closes (receive_audio_except e s) = closes s"
  "audio_queue (receive_audio_except e s) = audio_queue s"
  "run_pc (receive_audio_except e s) = run_pc s"
  "up_pc (receive_audio_except e s) = up_pc s"
  "down_pc (receive_audio_except e s) =
     (if e = TimeoutError \<and> running s \<and> ws s then Waiting else Exited)"
  "signal_handlers (receive_audio_except e s) = signal_handlers s"
  "result (receive_audio_except e s) = result s"
  "returned (receive_audio_except e s) = returned s"
  by (simp_all add: receive_audio_except_def)

lemma receive_audio_fields [simp]:
  "voice (receive_audio E s) = voice s"
  "text_prompt (receive_audio E s) = text_prompt s"
  "duration_seconds (receive_audio E s) = duration_seconds s"
  "running (receive_audio E s) = running s"
  "ws (receive_audio E s) = ws s"
  "sent (receive_audio E s) = sent s"
  "closes (receive_audio E s) = closes s"
  "audio_queue (receive_audio E s) = audio_queue s"
  "run_pc (receive_audio E s) = run_pc s"
  "up_pc (receive_audio E s) = up_pc s"
  "down_pc (receive_audio E s) =
     (if sounddevice E then (case output_stream E of Opens \<Rightarrow> (if running s \<and> ws s then Waiting
        else Exited) | Create_Raises e \<Rightarrow> Raised e | Start_Raises e \<Rightarrow> Raised e) else Exited)"
  "signal_handlers (receive_audio E s) = signal_handlers s"
  "result (receive_audio E s) = result s"
  "returned (receive_audio E s) = returned s"
  by (simp_all add: receive_audio_def Let_def split: stream_open.splits)

lemma run_returns_fields [simp]:
  "voice (run_returns s) = voice s"
  "text_prompt (run_returns s) = text_prompt s"
  "duration_seconds (run_returns s) = duration_seconds s"
  "running (run_returns s) = running s"
  "ws (run_returns s) = ws s"
  "sent (run_returns s) = sent s"
  "closes (run_returns s) = closes s"
  "audio_queue (run_returns s) = audio_queue s"
  "run_pc (run_returns s) = Run_Done"
  "up_pc (run_returns s) = up_pc s"
  "down_pc (run_returns s) = down_pc s"
  "signal_handlers (run_returns s) = signal_handlers s"
  "result (run_returns s) =
     (result s)\<lparr>status := (if truthy (duration_seconds s) then Completed else Disconnected)\<rparr>"
  "returned (run_returns s) = True"
  by (simp_all add: run_returns_def)

lemma run_raises_fields [simp]:
  "voice (run_raises e s) = voice s"
  "text_prompt (run_raises e s) = text_prompt s"
  "duration_seconds (run_raises e s) = duration_seconds s"
  "running (run_raises e s) = (if e = TimeoutError then False else running s)"
  "ws (run_raises e s) = (if e = TimeoutError then ws s \<and> \<not> running s else ws s)"
  "sent (run_raises e s) = sent s"
  "closes (run_raises e s) =
     (if e = TimeoutError \<and> running s \<and> ws s then Suc (closes s) else closes s)"
  "audio_queue (run_raises e s) = audio_queue s"
  "run_pc (run_raises e s) = Run_Done"
  "up_pc (run_raises e s) = up_pc s"
  "down_pc (run_raises e s) = down_pc s"
  "signal_handlers (run_raises e s) = signal_handlers s"
  "result (run_raises e s) =
     (if e = TimeoutError then (result s)\<lparr>status := Timeout\<rparr>
        else (result s)\<lparr>status := Error, error := Some e\<rparr>)"
  "returned (run_raises e s) = True"
  by (simp_all add: run_raises_def)

lemma gather_done_fields [simp]:
  "voice (gather_done s) = voice s"
  "text_prompt (gather_done s) = text_prompt s"
  "duration_seconds (gather_done s) = duration_seconds s"
  "running (gather_done s) =
     (if (run_pc s = Run_Gather \<and> up_pc s = Exited \<and> down_pc s = Exited) then False else running s)"
  "ws (gather_done s) =
     (if (run_pc s = Run_Gather \<and> up_pc s = Exited \<and> down_pc s = Exited) then ws s \<and> \<not> running s
        else ws s)"
  "sent (gather_done s) = sent s"
  "closes (gather_done s) =
     (if (run_pc s = Run_Gather \<and> up_pc s = Exited \<and> down_pc s = Exited) \<and> running s \<and> ws s then Suc (closes s)
        else closes s)"
  "audio_queue (gather_done s) = audio_queue s"
  "run_pc (gather_done s) =
     (if (run_pc s = Run_Gather \<and> up_pc s = Exited \<and> down_pc s = Exited) then Run_Done
        else run_pc s)"
  "up_pc (gather_done s) = up_pc s"
  "down_pc (gather_done s) = down_pc s"
  "signal_handlers (gather_done s) = signal_handlers s"
  "result (gather_done s) =
     (if (run_pc s = Run_Gather \<and> up_pc s = Exited \<and> down_pc s = Exited) then (result s)\<lparr>status := (if truthy (duration_seconds s) then Completed
        else Disconnected)\<rparr> else result s)"
  "returned (gather_done s) =
     ((run_pc s = Run_Gather \<and> up_pc s = Exited \<and> down_pc s = Exited) \<or> returned s)"
  by (auto simp: gather_done_def)

lemma cancel_pumps_fields [simp]:
  "voice (cancel_pumps s) = voice s"
  "text_prompt (cancel_pumps s) = text_prompt s"
  "duration_seconds (cancel_pumps s) = duration_seconds s"
  "running (cancel_pumps s) = running s"
  "ws (cancel_pumps s) = ws s"
  "sent (cancel_pumps s) = sent s"
  "closes (cancel_pumps s) = closes s"
  "audio_queue (cancel_pumps s) = audio_queue s"
  "run_pc (cancel_pumps s) = run_pc s"
  "up_pc (cancel_pumps s) =
     (case up_pc s of Waiting \<Rightarrow> Exited | Sending c \<Rightarrow> Exited | Not_Started \<Rightarrow> Not_Started
        | Exited \<Rightarrow> Exited | Raised e \<Rightarrow> Raised e)"
  "down_pc (cancel_pumps s) = (if down_pc s = Waiting then Exited else down_pc s)"
  "signal_handlers (cancel_pumps s) = signal_handlers s"
  "result (cancel_pumps s) = result s"
  "returned (cancel_pumps s) = returned s"
  by (simp_all add: cancel_pumps_def Let_def split: pump_pc.splits)

lemma duration_elapsed_fields [simp]:
  "voice (duration_elapsed s) = voice s"
  "text_prompt (duration_elapsed s) = text_prompt s"
  "duration_seconds (duration_elapsed s) = duration_seconds s"
  "running (duration_elapsed s) = False"
  "ws (duration_elapsed s) = (ws s \<and> \<not> running s)"
  "sent (duration_elapsed s) = sent s"
  "closes (duration_elapsed s) = (if running s \<and> ws s then Suc (closes s) else closes s)"
  "audio_queue (duration_elapsed s) = audio_queue s"
  "run_pc (duration_elapsed s) = Run_Done"
  "up_pc (duration_elapsed s) = (if run_pc s = Run_Gather then up_pc (cancel_pumps s) else up_pc s)"
  "down_pc (duration_elapsed s) =
     (if run_pc s = Run_Gather then down_pc (cancel_pumps s) else down_pc s)"
  "signal_handlers (duration_elapsed s) = signal_handlers s"
  "result (duration_elapsed s) = (result s)\<lparr>status := Timeout\<rparr>"
  "returned (duration_elapsed s) = True"
  by (simp_all add: duration_elapsed_def Let_def)

lemma connect_done_fields [simp]:
  "voice (connect_done r s) = voice s"
  "text_prompt (connect_done r s) = text_prompt s"
  "duration_seconds (connect_done r s) = duration_seconds s"
  "running (connect_done r s) = (case r of None \<Rightarrow> True | Some e \<Rightarrow> running (run_raises e s))"
  "ws (connect_done r s) = (case r of None \<Rightarrow> True | Some e \<Rightarrow> ws (run_raises e s))"
  "sent (connect_done r s) = sent s"
  "closes (connect_done r s) = (case r of None \<Rightarrow> closes s | Some e \<Rightarrow> closes (run_raises e s))"
  "audio_queue (connect_done r s) = audio_queue s"
  "run_pc (connect_done r s) = (case r of None \<Rightarrow> Run_Config | Some e \<Rightarrow> Run_Done)"
  "up_pc (connect_done r s) = up_pc s"
  "down_pc (connect_done r s) = down_pc s"
  "signal_handlers (connect_done r s) = signal_handlers s"
  "result (connect_done r s) = (case r of None \<Rightarrow> result s | Some e \<Rightarrow> result (run_raises e s))"
  "returned (connect_done r s) = (case r of None \<Rightarrow> returned s | Some e \<Rightarrow> True)"
  by (simp_all add: connect_done_def split: option.splits)

lemma config_logger [simp]: "config (logger l m s) = config s"
  by (simp add: config_def)

lemma on_text_Inr: "on_text E m s = Inr s' \<Longrightarrow> \<exists>l msg. s' = logger l msg s"
  by (auto simp: on_text_def split: option.splits sum.splits bool.splits)

lemma recv_done_fields [simp]:
  "voice (recv_done E r s) = voice s"
  "text_prompt (recv_done E r s) = text_prompt s"
  "duration_seconds (recv_done E r s) = duration_seconds s"
  "running (recv_done E r s) = running s"
  "ws (recv_done E r s) = ws s"
  "sent (recv_done E r s) = sent s"
  "closes (recv_done E r s) = closes s"
  "audio_queue (recv_done E r s) = audio_queue s"
  "run_pc (recv_done E r s) = run_pc s"
  "up_pc (recv_done E r s) = up_pc s"
  "signal_handlers (recv_done E r s) = signal_handlers s"
  "result (recv_done E r s) = result s"
  "returned (recv_done E r s) = returned s"
  by (auto simp: recv_done_def split: recv.splits sum.splits dest!: on_text_Inr)

lemma recv_done_down_pc: "down_pc (recv_done E r s) = Waiting \<or> down_pc (recv_done E r s) = Exited"
  by (auto simp: recv_done_def split: recv.splits sum.splits)

text \<open>The invariant holds at the start and is kept by every event.\<close>

lemma inv_connect_done: "session_inv E s \<Longrightarrow> run_pc s = Run_Connect \<Longrightarrow> session_inv E (connect_done r s)"
  by (cases r) (auto simp: session_inv_def config_def)

lemma inv_stop: "session_inv E s \<Longrightarrow> signal_handlers s \<Longrightarrow> session_inv E (stop s)"
  by (auto simp: session_inv_def config_def)

lemma inv_duration_elapsed:
  "session_inv E s \<Longrightarrow> run_pc s \<in> {Run_Connect, Run_Config, Run_Gather} \<Longrightarrow>
   session_inv E (duration_elapsed s)"
  by (auto simp: session_inv_def config_def)

lemma inv_capture: "session_inv E s \<Longrightarrow> session_inv E (audio_callback indata stat s)"
  by (auto simp: session_inv_def config_def put_nowait_def full_def split: sum.splits)

lemma inv_queue_wake: "session_inv E s \<Longrightarrow> up_pc s = Waiting \<Longrightarrow> session_inv E (gather_done (queue_wake s))"
  by (auto simp: session_inv_def config_def get_nowait_def split: option.splits list.splits)

lemma inv_send_done: "session_inv E s \<Longrightarrow> up_pc s = Sending c \<Longrightarrow> session_inv E (gather_done (send_done c r s))"
  by (cases r) (auto simp: session_inv_def config_def audio_frame_def)

lemma inv_recv_done: "session_inv E s \<Longrightarrow> down_pc s = Waiting \<Longrightarrow> session_inv E (gather_done (recv_done E r s))"
  using recv_done_down_pc[of E r s] by (auto simp: session_inv_def config_def)


lemma inv_gather: "session_inv E s \<Longrightarrow> run_pc s = Run_Gather \<Longrightarrow> sent s \<noteq> [] \<Longrightarrow> session_inv E (gather E s)"
proof -
  assume a: "session_inv E s" "run_pc s = Run_Gather" "sent s \<noteq> []"
  show ?thesis
  proof (cases "sounddevice E")
    case False
    with a show ?thesis
      by (simp add: session_inv_def config_def gather_def first_raised_def Let_def)
  next
    case True
    show ?thesis
    proof (cases "input_stream E")
      case Opens
      show ?thesis
      proof (cases "output_stream E")
        case Opens
        with a True \<open>input_stream E = Opens\<close> show ?thesis
          by (simp add: session_inv_def config_def gather_def first_raised_def Let_def Queue_def)
      next
        case (Create_Raises e)
        with a True \<open>input_stream E = Opens\<close> show ?thesis
          by (simp add: session_inv_def config_def gather_def first_raised_def Let_def Queue_def)
      next
        case (Start_Raises e)
        with a True \<open>input_stream E = Opens\<close> show ?thesis
          by (simp add: session_inv_def config_def gather_def first_raised_def Let_def Queue_def)
      qed
    next
      case (Create_Raises e)
      with a True show ?thesis
        by (simp add: session_inv_def config_def gather_def first_raised_def Let_def Queue_def)
    next
      case (Start_Raises e)
      with a True show ?thesis
        by (simp add: session_inv_def config_def gather_def first_raised_def Let_def Queue_def)
    qed
  qed
qed

lemma inv_config_sent: "session_inv E s \<Longrightarrow> run_pc s = Run_Config \<Longrightarrow> session_inv E (config_sent E r s)"
proof (cases r)
  case None
  let ?s2 = "(logger INFO (Sent_config (voice s) (text_prompt s \<noteq> []))
                (s\<lparr>sent := sent s @ [Text (json_dumps E (PyDict (config s)))]\<rparr>))
               \<lparr>signal_handlers := True, run_pc := Run_Gather\<rparr>"
  assume a: "session_inv E s" "run_pc s = Run_Config"
  then have "session_inv E ?s2"
    by (auto simp: session_inv_def config_def)
  then have "session_inv E (gather E ?s2)"
    by (rule inv_gather) simp_all
  with None show ?thesis
    by (simp add: config_sent_def)
next
  case (Some e)
  assume "session_inv E s" "run_pc s = Run_Config"
  with Some show ?thesis
    by (auto simp: session_inv_def config_def config_sent_def)
qed

lemma inv_step: "session_inv E s \<Longrightarrow> session_inv E (step E ev s)"
proof (cases ev)
  case (Connect_Done r)
  assume "session_inv E s" then show ?thesis using Connect_Done by (simp add: step_def inv_connect_done)
next
  case (Config_Sent r)
  assume "session_inv E s" then show ?thesis using Config_Sent by (simp add: step_def inv_config_sent)
next
  case (Capture b st)
  assume "session_inv E s" then show ?thesis using Capture by (simp add: step_def inv_capture)
next
  case Queue_Wake
  assume "session_inv E s" then show ?thesis using Queue_Wake by (simp add: step_def inv_queue_wake)
next
  case (Send_Done r)
  assume "session_inv E s" then show ?thesis using Send_Done
    by (simp add: step_def inv_send_done split: pump_pc.splits)
next
  case (Recv_Done r)
  assume "session_inv E s" then show ?thesis using Recv_Done by (simp add: step_def inv_recv_done)
next
  case Signal
  assume a: "session_inv E s"
  have "session_inv E (s\<lparr>run_pc := Run_Exit\<rparr>)" if "\<not> signal_handlers s"
    using a that by (auto simp: session_inv_def config_def)
  with a show ?thesis using Signal by (simp add: step_def inv_stop)
next
  case Duration_Elapsed
  assume "session_inv E s" then show ?thesis using Duration_Elapsed
    by (simp add: step_def inv_duration_elapsed)
qed

lemma inv_exec: "session_inv E s \<Longrightarrow> session_inv E (exec E evs s)"
  unfolding exec_def by (induction evs arbitrary: s) (simp_all add: inv_step)

lemma inv_start:
  "session_inv E (run E ((PersonaPlexClient url v prompt i_dev o_dev)\<lparr>duration_seconds := d, result := r\<rparr>))"
  by (simp add: session_inv_def run_def PersonaPlexClient_def Let_def Queue_def logger_def)

lemma inv_clawdbot_connect: "session_inv E (clawdbot_connect E url v prompt d evs)"
  unfolding clawdbot_connect_def Let_def by (rule inv_exec) (rule inv_start)

subsection \<open>Facts about whole runs\<close>

text \<open>
  The voice, the prompt and the duration limit never change; what was sent has the shape
  the invariant gives it, and never becomes empty again.
\<close>

lemma gather_fields [simp]:
  "voice (gather E s) = voice s"
  "text_prompt (gather E s) = text_prompt s"
  "duration_seconds (gather E s) = duration_seconds s"
  "sent (gather E s) = sent s"
  by (simp_all add: gather_def Let_def split: option.splits)

lemma config_sent_fields [simp]:
  "voice (config_sent E r s) = voice s"
  "text_prompt (config_sent E r s) = text_prompt s"
  "duration_seconds (config_sent E r s) = duration_seconds s"
  by (simp_all add: config_sent_def split: option.splits)

lemma step_fields [simp]:
  "voice (step E ev s) = voice s"
  "text_prompt (step E ev s) = text_prompt s"
  "duration_seconds (step E ev s) = duration_seconds s"
  by (cases ev; simp add: step_def split: pump_pc.splits)+

lemma exec_fields [simp]:
  "voice (exec E evs s) = voice s"
  "text_prompt (exec E evs s) = text_prompt s"
  "duration_seconds (exec E evs s) = duration_seconds s"
  unfolding exec_def by (induction evs arbitrary: s; simp)+

lemma clawdbot_connect_fields [simp]:
  "voice (clawdbot_connect E url v prompt d evs) = upper v"
  "text_prompt (clawdbot_connect E url v prompt d evs) = prompt"
  "duration_seconds (clawdbot_connect E url v prompt d evs) = d"
  by (simp_all add: clawdbot_connect_def Let_def run_def PersonaPlexClient_def logger_def)

lemma config_clawdbot_connect:
  "config (clawdbot_connect E url v prompt d evs) = config (PersonaPlexClient url v prompt i_dev o_dev)"
  by (simp add: config_def PersonaPlexClient_def Let_def logger_def)

lemma audio_frames_map: "list_all audio_frame ms \<Longrightarrow> \<exists>frames. ms = map Binary frames"
proof (induction ms)
  case Nil
  then show ?case by simp
next
  case (Cons m ms)
  then obtain frames where "ms = map Binary frames" by auto
  moreover from Cons.prems obtain b where "m = Binary b"
    by (cases m) (auto simp: audio_frame_def)
  ultimately have "m # ms = map Binary (b # frames)" by simp
  then show ?case by (rule exI)
qed

lemma sent_shape:
  assumes "session_inv E s" "sent s \<noteq> []"
  shows "\<exists>frames. sent s = Text (json_dumps E (PyDict (config s))) # map Binary frames"
proof -
  from assms have h: "hd (sent s) = Text (json_dumps E (PyDict (config s)))"
    and t: "list_all audio_frame (tl (sent s))"
    by (simp_all add: session_inv_def)
  from t obtain frames where "tl (sent s) = map Binary frames"
    using audio_frames_map by blast
  with h assms(2) have "sent s = Text (json_dumps E (PyDict (config s))) # map Binary frames"
    by (cases "sent s") simp_all
  then show ?thesis ..
qed

lemma sent_step_nonempty: "sent s \<noteq> [] \<Longrightarrow> sent (step E ev s) \<noteq> []"
  by (cases ev; simp add: step_def config_sent_def split: pump_pc.splits option.splits)

lemma sent_exec_nonempty: "sent s \<noteq> [] \<Longrightarrow> sent (exec E evs s) \<noteq> []"
  unfolding exec_def by (induction evs arbitrary: s) (simp_all add: sent_step_nonempty)

lemma exec_Cons [simp]: "exec E (ev # evs) s = exec E evs (step E ev s)"
  by (simp add: exec_def)

lemma exec_Nil [simp]: "exec E [] s = s"
  by (simp add: exec_def)

lemma exec_append [simp]: "exec E (evs @ evs') s = exec E evs' (exec E evs s)"
  by (simp add: exec_def)

lemma clawdbot_connect_Cons:
  "clawdbot_connect E url v prompt d (evs @ evs') = exec E evs' (clawdbot_connect E url v prompt d evs)"
  by (simp add: clawdbot_connect_def Let_def)

lemma started_sent:
  "websockets E \<Longrightarrow>
   sent (clawdbot_connect E url v prompt d [Connect_Done None, Config_Sent None]) \<noteq> []"
  by (simp add: clawdbot_connect_def Let_def run_def step_def config_sent_def PersonaPlexClient_def)

lemma started_shape:
  assumes "websockets E"
  shows "\<exists>frames. sent (clawdbot_connect E url v prompt d (Connect_Done None # Config_Sent None # evs)) =
       Text (json_dumps E (PyDict (config (PersonaPlexClient url v prompt None None)))) # map Binary frames"
proof -
  let ?S = "clawdbot_connect E url v prompt d (Connect_Done None # Config_Sent None # evs)"
  have "sent ?S \<noteq> []"
    using clawdbot_connect_Cons [of E url v prompt d "[Connect_Done None, Config_Sent None]" evs]
      sent_exec_nonempty [OF started_sent [OF assms]]
    by simp
  then show ?thesis
    using sent_shape [OF inv_clawdbot_connect, of E url v prompt d]
    by (simp add: config_clawdbot_connect [of E url v prompt d _ None None])
qed

text \<open>The definitions a concrete run is evaluated with.\<close>

lemmas run_defs =
  clawdbot_connect_def exec_def step_def run_def PersonaPlexClient_def
  connect_done_def config_sent_def gather_def first_raised_def gather_done_def
  run_returns_def run_raises_def stop_def logger_def
  send_audio_def send_audio_loop_def send_audio_finally_def send_audio_except_def
  receive_audio_def receive_audio_loop_def receive_audio_finally_def receive_audio_except_def
  recv_done_def on_text_def queue_wake_def send_done_def audio_callback_def capturing_def
  duration_elapsed_def cancel_pumps_def truthy_def config_def
  put_nowait_def get_nowait_def full_def qsize_def Queue_def
  upper_def upper_char_def VOICE_PRESETS_def Let_def





text \<open>
  Once the pumps have been started, every way \<open>run\<close> ends other than the duration limit
  is a normal return, and the status is set by \<open>duration_seconds\<close> alone.
\<close>

lemma run_status_step:
  assumes "ev \<noteq> Duration_Elapsed"
    and "run_pc s \<in> {Run_Gather, Run_Done, Run_Exit}"
    and "returned s \<longrightarrow> status (result s) = (if truthy (duration_seconds s) then Completed else Disconnected)"
  shows "run_pc (step E ev s) \<in> {Run_Gather, Run_Done, Run_Exit} \<and>
         (returned (step E ev s) \<longrightarrow>
            status (result (step E ev s)) = (if truthy (duration_seconds s) then Completed else Disconnected))"
  using assms by (cases ev; auto simp: step_def split: pump_pc.splits)

lemma run_status_exec:
  assumes "Duration_Elapsed \<notin> set evs"
    and "run_pc s \<in> {Run_Gather, Run_Done, Run_Exit}"
    and "returned s \<longrightarrow> status (result s) = (if truthy (duration_seconds s) then Completed else Disconnected)"
  shows "returned (exec E evs s) \<longrightarrow>
           status (result (exec E evs s)) = (if truthy (duration_seconds s) then Completed else Disconnected)"
  using assms
proof (induction evs arbitrary: s)
  case Nil
  then show ?case by simp
next
  case (Cons ev evs)
  from Cons.prems have "ev \<noteq> Duration_Elapsed" by auto
  from run_status_step [OF this Cons.prems(2,3), of E]
  have "run_pc (step E ev s) \<in> {Run_Gather, Run_Done, Run_Exit}"
    and "returned (step E ev s) \<longrightarrow>
            status (result (step E ev s)) =
              (if truthy (duration_seconds (step E ev s)) then Completed else Disconnected)"
    by simp_all
  with Cons.IH [of "step E ev s"] Cons.prems(1) show ?case by simp
qed

lemma gather_status:
  assumes "run_pc s = Run_Gather" and "\<not> returned s"
  shows "run_pc (gather E s) \<in> {Run_Gather, Run_Done, Run_Exit} \<and>
         (returned (gather E s) \<longrightarrow>
            status (result (gather E s)) = (if truthy (duration_seconds s) then Completed else Disconnected))"
  using assms by (auto simp: gather_def Let_def split: option.splits)

lemma started_status:
  "run_pc (clawdbot_connect E url v prompt d [Connect_Done None, Config_Sent None])
     \<in> {Run_Gather, Run_Done, Run_Exit} \<and>
   (returned (clawdbot_connect E url v prompt d [Connect_Done None, Config_Sent None]) \<longrightarrow>
      status (result (clawdbot_connect E url v prompt d [Connect_Done None, Config_Sent None])) =
        (if truthy d then Completed else Disconnected))"
proof (cases "websockets E")
  case False
  then show ?thesis
    by (simp add: clawdbot_connect_def Let_def run_def step_def PersonaPlexClient_def)
next
  case True
  let ?c = "(PersonaPlexClient url v prompt None None)\<lparr>duration_seconds := d,
              result := \<lparr>status = Connected, server = url, res_voice = v,
                         res_text_prompt = (if 100 < length prompt then take 100 prompt @ ''...'' else prompt),
                         error = None\<rparr>\<rparr>"
  let ?s1 = "step E (Connect_Done None) (run E ?c)"
  let ?s2 = "(logger INFO (Sent_config (voice ?s1) (text_prompt ?s1 \<noteq> []))
                (?s1\<lparr>sent := sent ?s1 @ [Text (json_dumps E (PyDict (config ?s1)))]\<rparr>))
               \<lparr>signal_handlers := True, run_pc := Run_Gather\<rparr>"
  have r: "\<not> returned ?c" and dc: "duration_seconds ?c = d"
    by (simp_all add: PersonaPlexClient_def Let_def logger_def)
  from True r have s1: "run_pc ?s1 = Run_Config" "\<not> returned ?s1"
    by (simp_all add: run_def step_def)
  then have "step E (Config_Sent None) ?s1 = gather E ?s2"
    by (simp add: step_def config_sent_def)
  moreover from s1 have "run_pc ?s2 = Run_Gather" "\<not> returned ?s2" by simp_all
  moreover from dc have "duration_seconds ?s2 = d" by (simp add: run_def)
  ultimately show ?thesis
    using gather_status [of ?s2 E]
    by (simp add: clawdbot_connect_def Let_def)
qed

text \<open>
  Every chunk in the queue, in the send in flight and in a binary message sent is a chunk
  that a capture event delivered.
\<close>

lemma block_bytes_eq: "block_bytes = 3840"
  by (simp add: block_bytes_def CHUNK_SIZE_def SAMPLE_RATE_def CHUNK_DURATION_MS_def CHANNELS_def)

lemma gather_up_pc:
  "up_pc (gather E s) \<noteq> Sending c"
  "audio_queue (gather E s) = (if sounddevice E then Queue 0 else audio_queue s)"
  by (simp_all add: gather_def Let_def split: option.splits stream_open.splits)

lemma captured_step:
  assumes "\<forall>b. Binary b \<in> set (sent s) \<longrightarrow> b \<in> C"
    and "set (items (audio_queue s)) \<subseteq> C"
    and "\<forall>c. up_pc s = Sending c \<longrightarrow> c \<in> C"
  shows "(\<forall>b. Binary b \<in> set (sent (step E ev s)) \<longrightarrow> b \<in> C \<union> {b. \<exists>stat. ev = Capture b stat}) \<and>
         set (items (audio_queue (step E ev s))) \<subseteq> C \<union> {b. \<exists>stat. ev = Capture b stat} \<and>
         (\<forall>c. up_pc (step E ev s) = Sending c \<longrightarrow> c \<in> C \<union> {b. \<exists>stat. ev = Capture b stat})"
proof (cases ev)
  case (Connect_Done r)
  with assms show ?thesis by (cases r) (auto simp: step_def)
next
  case (Config_Sent r)
  with assms show ?thesis
    by (cases r) (auto simp: step_def config_sent_def gather_up_pc Queue_def)
next
  case (Capture indata stat)
  with assms show ?thesis
    by (auto simp: step_def put_nowait_def split: sum.splits if_splits)
next
  case Queue_Wake
  with assms show ?thesis
    by (auto simp: step_def get_nowait_def split: list.splits if_splits)
next
  case (Send_Done r)
  with assms show ?thesis
    by (cases r; cases "up_pc s") (auto simp: step_def split: if_splits)
next
  case (Recv_Done r)
  with assms show ?thesis by (auto simp: step_def)
next
  case Signal
  with assms show ?thesis by (auto simp: step_def)
next
  case Duration_Elapsed
  with assms show ?thesis by (auto simp: step_def split: pump_pc.splits)
qed

lemma captured_exec:
  assumes "\<forall>b. Binary b \<in> set (sent s) \<longrightarrow> b \<in> C"
    and "set (items (audio_queue s)) \<subseteq> C"
    and "\<forall>c. up_pc s = Sending c \<longrightarrow> c \<in> C"
  shows "\<forall>b. Binary b \<in> set (sent (exec E evs s)) \<longrightarrow> b \<in> C \<union> {b. \<exists>stat. Capture b stat \<in> set evs}"
  using assms
proof (induction evs arbitrary: s C)
  case Nil
  then show ?case by simp
next
  case (Cons ev evs)
  let ?C = "C \<union> {b. \<exists>stat. ev = Capture b stat}"
  from captured_step [OF Cons.prems, of E ev]
  have "\<forall>b. Binary b \<in> set (sent (exec E evs (step E ev s))) \<longrightarrow>
          b \<in> ?C \<union> {b. \<exists>stat. Capture b stat \<in> set evs}"
    by (intro Cons.IH) simp_all
  then show ?case by auto
qed

lemma captured_clawdbot_connect:
  "Binary b \<in> set (sent (clawdbot_connect E url v prompt d evs)) \<Longrightarrow> \<exists>stat. Capture b stat \<in> set evs"
proof -
  let ?s = "run E ((PersonaPlexClient url v prompt None None)\<lparr>duration_seconds := d,
              result := \<lparr>status = Connected, server = url, res_voice = v,
                         res_text_prompt = (if 100 < length prompt then take 100 prompt @ ''...'' else prompt),
                         error = None\<rparr>\<rparr>)"
  have "\<forall>b. Binary b \<in> set (sent ?s) \<longrightarrow> b \<in> {}" "set (items (audio_queue ?s)) \<subseteq> {}"
    "\<forall>c. up_pc ?s = Sending c \<longrightarrow> c \<in> {}"
    by (simp_all add: run_def PersonaPlexClient_def Let_def logger_def Queue_def)
  from captured_exec [OF this, of E evs]
  show "Binary b \<in> set (sent (clawdbot_connect E url v prompt d evs)) \<Longrightarrow> \<exists>stat. Capture b stat \<in> set evs"
    by (simp add: clawdbot_connect_def Let_def)
qed

text \<open>A text that \<open>json.loads\<close> rejects is logged as it is, and the pump goes on.\<close>

lemma undecodable_text_continues:
  assumes "json_loads E message = None" and "run_pc s \<noteq> Run_Exit"
    and "down_pc s = Waiting" and "running s" and "ws s"
  shows "logged (step E (Recv_Done (Recv_Str message)) s) = logged s @ [(INFO,
   Agent (PyStr message))] \<and>
         down_pc (step E (Recv_Done (Recv_Str message)) s) = Waiting \<and>
         running (step E (Recv_Done (Recv_Str message)) s)"
proof -
  from assms have "recv_done E (Recv_Str message) s =
      (logger INFO (Agent (PyStr message)) s)\<lparr>down_pc := Waiting\<rparr>"
    by (simp add: recv_done_def on_text_def receive_audio_loop_def)
  with assms show ?thesis
    by (simp add: step_def gather_done_def logger_def)
qed

section \<open>The claims about connect.py\<close>

text \<open>
  C1. Whatever the voice, the prompt and the events, a session sends nothing or sends
  the configuration message first and after it only audio frames; and when the
  connection is made and the send of the configuration ends, the configuration message
  is there: exactly one, the first message, before every audio frame.
\<close>

theorem config_first_and_once:
  "(sent (clawdbot_connect E url v prompt d evs) = [] \<or>
    (\<exists>frames. sent (clawdbot_connect E url v prompt d evs) =
       Text (json_dumps E (PyDict (config (PersonaPlexClient url v prompt None None)))) # map Binary frames)) \<and>
   (websockets E \<longrightarrow>
    (\<exists>frames. sent (clawdbot_connect E url v prompt d (Connect_Done None # Config_Sent None # evs)) =
       Text (json_dumps E (PyDict (config (PersonaPlexClient url v prompt None None)))) # map Binary frames))"
proof -
  have shape: "sent (clawdbot_connect E url v prompt d es) = [] \<or>
    (\<exists>frames. sent (clawdbot_connect E url v prompt d es) =
       Text (json_dumps E (PyDict (config (PersonaPlexClient url v prompt None None)))) # map Binary frames)" for es
    using sent_shape [OF inv_clawdbot_connect, of E url v prompt d es]
    by (auto simp: config_clawdbot_connect [of E url v prompt d es None None])
  with started_shape [of E url v prompt d evs] show ?thesis by blast
qed

theorem config_first_and_once_witness:
  "websockets (env_ok Map.empty) \<and>
   (\<exists>frames.
      sent (run_of Map.empty None
              (Connect_Done None # Config_Sent None #
               [Capture [1, 2] False, Queue_Wake, Send_Done None])) =
      Text (json_dumps (env_ok Map.empty)
              (PyDict (config (PersonaPlexClient ''wss://localhost:8998/ws'' ''NATF2'' '''' None None)))) #
      map Binary frames)"
  by (rule conjI, simp, rule config_first_and_once [THEN conjunct2, THEN mp], simp)

text \<open>
  C2, as the code has it. The queue of \<open>send_audio\<close> is \<open>asyncio.Queue()\<close>, without a
  bound. In every state of a session it is not full; a push (\<open>put_nowait\<close>, called for
  the capture callback) does not fail and drops nothing: it puts the chunk behind the
  queued ones, so the queue is one chunk longer and the chunk pushed last is its last
  item; the callback writes no log record for it unless the stream reports a status. A
  pop (the wake-up of the pump) takes the oldest chunk only. While the input stream is
  open, a capture event is this push.
\<close>

theorem capture_queue_unbounded:
  "maxsize (audio_queue (clawdbot_connect E url v prompt d evs)) = 0 \<and>
   \<not> full (audio_queue (clawdbot_connect E url v prompt d evs)) \<and>
   put_nowait (audio_queue (clawdbot_connect E url v prompt d evs)) chunk =
     Inr ((audio_queue (clawdbot_connect E url v prompt d evs))
            \<lparr>items := items (audio_queue (clawdbot_connect E url v prompt d evs)) @ [chunk]\<rparr>) \<and>
   items (audio_queue (audio_callback chunk stat (clawdbot_connect E url v prompt d evs))) =
     items (audio_queue (clawdbot_connect E url v prompt d evs)) @ [chunk] \<and>
   qsize (audio_queue (audio_callback chunk stat (clawdbot_connect E url v prompt d evs))) =
     Suc (qsize (audio_queue (clawdbot_connect E url v prompt d evs))) \<and>
   logged (audio_callback chunk False (clawdbot_connect E url v prompt d evs)) =
     logged (clawdbot_connect E url v prompt d evs) \<and>
   items (audio_queue (queue_wake (clawdbot_connect E url v prompt d evs))) =
     tl (items (audio_queue (clawdbot_connect E url v prompt d evs))) \<and>
   (capturing (clawdbot_connect E url v prompt d evs) \<longrightarrow>
      step E (Capture chunk stat) (clawdbot_connect E url v prompt d evs) =
        audio_callback chunk stat (clawdbot_connect E url v prompt d evs))"
proof -
  let ?S = "clawdbot_connect E url v prompt d evs"
  have i: "session_inv E ?S" by (rule inv_clawdbot_connect)
  then have m: "maxsize (audio_queue ?S) = 0"
    by (simp add: session_inv_def)
  then have f: "\<not> full (audio_queue ?S)"
    by (simp add: full_def)
  then have p: "put_nowait (audio_queue ?S) chunk =
      Inr ((audio_queue ?S)\<lparr>items := items (audio_queue ?S) @ [chunk]\<rparr>)"
    by (simp add: put_nowait_def)
  then have c: "items (audio_queue (audio_callback chunk stat ?S)) = items (audio_queue ?S) @ [chunk]"
    by simp
  then have q: "qsize (audio_queue (audio_callback chunk stat ?S)) = Suc (qsize (audio_queue ?S))"
    by (simp add: qsize_def)
  from p have l: "logged (audio_callback chunk False ?S) = logged ?S"
    by (simp add: audio_callback_def Let_def)
  have w: "items (audio_queue (queue_wake ?S)) = tl (items (audio_queue ?S))"
    by (simp add: get_nowait_def split: list.splits)
  have s: "step E (Capture chunk stat) ?S = audio_callback chunk stat ?S" if "capturing ?S"
  proof -
    from that have "up_pc ?S \<noteq> Not_Started"
      by (auto simp: capturing_def)
    with i have "run_pc ?S \<noteq> Run_Exit"
      by (auto simp: session_inv_def)
    with that show ?thesis
      by (simp add: step_def)
  qed
  from m f p c q l w s show ?thesis by (simp only:) blast
qed

theorem capture_queue_unbounded_witness:
  "capturing (streaming Map.empty None) \<and>
   step (env_ok Map.empty) (Capture [7] False) (streaming Map.empty None) =
     audio_callback [7] False (streaming Map.empty None) \<and>
   items (audio_queue (audio_callback [7] False (streaming Map.empty None))) =
     items (audio_queue (streaming Map.empty None)) @ [[7]]"
proof -
  have "capturing (streaming Map.empty None)"
    by (simp add: run_defs)
  with capture_queue_unbounded
    [of "env_ok Map.empty" "''wss://localhost:8998/ws''" "''NATF2''" "''''" None
      "[Connect_Done None, Config_Sent None]" "[7]" False]
  show ?thesis by (simp only:)
qed

text \<open>
  C2 as stated fails. After 26 pushes and no pop the queue holds 26 chunks, more than the
  25 the specification gives as the capacity (and so for any other capacity): all the
  chunks pushed, the oldest still the first, and no dropped-chunk record (no record at
  all) has been logged.
\<close>

theorem capture_queue_counterexample:
  "qsize (audio_queue (run_of Map.empty None
      ([Connect_Done None, Config_Sent None] @
       [Capture [0] False, Capture [1] False, Capture [2] False, Capture [3] False,
        Capture [4] False, Capture [5] False, Capture [6] False, Capture [7] False,
        Capture [8] False, Capture [9] False, Capture [10] False, Capture [11] False,
        Capture [12] False, Capture [13] False, Capture [14] False, Capture [15] False,
        Capture [16] False, Capture [17] False, Capture [18] False, Capture [19] False,
        Capture [20] False, Capture [21] False, Capture [22] False, Capture [23] False,
        Capture [24] False, Capture [25] False]))) = 26 \<and>
   items (audio_queue (run_of Map.empty None
      ([Connect_Done None, Config_Sent None] @
       [Capture [0] False, Capture [1] False, Capture [2] False, Capture [3] False,
        Capture [4] False, Capture [5] False, Capture [6] False, Capture [7] False,
        Capture [8] False, Capture [9] False, Capture [10] False, Capture [11] False,
        Capture [12] False, Capture [13] False, Capture [14] False, Capture [15] False,
        Capture [16] False, Capture [17] False, Capture [18] False, Capture [19] False,
        Capture [20] False, Capture [21] False, Capture [22] False, Capture [23] False,
        Capture [24] False, Capture [25] False]))) =
     [[0], [1], [2], [3], [4], [5], [6], [7], [8], [9], [10], [11], [12], [13], [14], [15],
      [16], [17], [18], [19], [20], [21], [22], [23], [24], [25]] \<and>
   logged (run_of Map.empty None
      ([Connect_Done None, Config_Sent None] @
       [Capture [0] False, Capture [1] False, Capture [2] False, Capture [3] False,
        Capture [4] False, Capture [5] False, Capture [6] False, Capture [7] False,
        Capture [8] False, Capture [9] False, Capture [10] False, Capture [11] False,
        Capture [12] False, Capture [13] False, Capture [14] False, Capture [15] False,
        Capture [16] False, Capture [17] False, Capture [18] False, Capture [19] False,
        Capture [20] False, Capture [21] False, Capture [22] False, Capture [23] False,
        Capture [24] False, Capture [25] False])) =
     logged (streaming Map.empty None)"
  by (simp add: run_defs)

text \<open>
  C3, as the code has it. A session that has sent its configuration and ends without the
  duration limit being reached (so every session that ends because a send or a receive
  failed in the pumps) returns the status \<open>disconnected\<close> when it was started without
  a duration limit and \<open>completed\<close> when it was started with one; never \<open>error\<close> or
  \<open>timeout\<close>.
\<close>

theorem transport_failure_status:
  assumes "Duration_Elapsed \<notin> set evs"
    and "returned (clawdbot_connect E url v prompt d (Connect_Done None # Config_Sent None # evs))"
  shows "status (result (clawdbot_connect E url v prompt d (Connect_Done None # Config_Sent None # evs))) =
           (if truthy d then Completed else Disconnected)"
proof -
  let ?S0 = "clawdbot_connect E url v prompt d [Connect_Done None, Config_Sent None]"
  have e: "clawdbot_connect E url v prompt d (Connect_Done None # Config_Sent None # evs) = exec E evs ?S0"
    using clawdbot_connect_Cons [of E url v prompt d "[Connect_Done None, Config_Sent None]" evs]
    by simp
  have "duration_seconds ?S0 = d" by simp
  with started_status [of E url v prompt d] run_status_exec [OF assms(1), of ?S0 E] assms(2)
  show ?thesis
    unfolding e by simp
qed

theorem transport_failure_status_witness:
  "Duration_Elapsed \<notin>
     set [Recv_Done (Recv_Raises (Other ''ConnectionClosed'')), Capture [1, 2] False, Queue_Wake,
          Send_Done (Some (Other ''ConnectionClosed''))] \<and>
   returned (run_of Map.empty None
      (Connect_Done None # Config_Sent None #
       [Recv_Done (Recv_Raises (Other ''ConnectionClosed'')), Capture [1, 2] False, Queue_Wake,
        Send_Done (Some (Other ''ConnectionClosed''))])) \<and>
   status (result (run_of Map.empty None
      (Connect_Done None # Config_Sent None #
       [Recv_Done (Recv_Raises (Other ''ConnectionClosed'')), Capture [1, 2] False, Queue_Wake,
        Send_Done (Some (Other ''ConnectionClosed''))]))) = Disconnected"
proof -
  have "Duration_Elapsed \<notin>
     set [Recv_Done (Recv_Raises (Other ''ConnectionClosed'')), Capture [1, 2] False, Queue_Wake,
          Send_Done (Some (Other ''ConnectionClosed''))]"
    and "returned (run_of Map.empty None
      (Connect_Done None # Config_Sent None #
       [Recv_Done (Recv_Raises (Other ''ConnectionClosed'')), Capture [1, 2] False, Queue_Wake,
        Send_Done (Some (Other ''ConnectionClosed''))]))"
    by (simp_all add: run_defs)
  from this transport_failure_status [OF this]
  show ?thesis by (simp add: truthy_def)
qed

text \<open>
  C3 as stated fails: with a duration limit of 60 seconds, the receive fails, then the
  send of a chunk fails, both pumps end, \<open>run\<close> returns before the limit, and the status
  is \<open>completed\<close>.
\<close>

theorem transport_failure_completed_counterexample:
  "returned (run_of Map.empty (Some 60)
      [Connect_Done None, Config_Sent None,
       Recv_Done (Recv_Raises (Other ''ConnectionClosed'')), Capture [1, 2] False, Queue_Wake,
       Send_Done (Some (Other ''ConnectionClosed''))]) \<and>
   status (result (run_of Map.empty (Some 60)
      [Connect_Done None, Config_Sent None,
       Recv_Done (Recv_Raises (Other ''ConnectionClosed'')), Capture [1, 2] False, Queue_Wake,
       Send_Done (Some (Other ''ConnectionClosed''))])) = Completed \<and>
   logged (run_of Map.empty (Some 60)
      [Connect_Done None, Config_Sent None,
       Recv_Done (Recv_Raises (Other ''ConnectionClosed'')), Capture [1, 2] False, Queue_Wake,
       Send_Done (Some (Other ''ConnectionClosed''))]) =
     logged (streaming Map.empty (Some 60)) @
     [(ERROR, Error_receiving_audio (Other ''ConnectionClosed'')), (INFO, Audio_playback_stopped),
      (ERROR, Error_sending_audio (Other ''ConnectionClosed'')), (INFO, Audio_capture_stopped),
      (INFO, Shutting_down)]"
  by (simp add: run_defs)

text \<open>
  C4. The code handles a text that is not JSON (\<open>except json.JSONDecodeError\<close>) and
  a JSON object without \<open>text\<close> and \<open>error\<close>, and the pump goes on. A text that decodes
  to a value on which \<open>"text" in data\<close> or \<open>data["text"]\<close> raises is not handled. The
  inbound text \<open>123\<close> decodes to the integer 123; \<open>"text" in data\<close> raises
  \<open>TypeError\<close>, which reaches the \<open>except Exception\<close> of the loop: the pump logs
  \<open>Error receiving audio\<close>, leaves the loop and stops the output stream, while the
  client is still running.
\<close>

theorem scalar_control_message_ends_pump:
  "down_pc (streaming (map_of [(''123'', PyInt 123)]) None) = Waiting \<and>
   down_pc (step (env_ok (map_of [(''123'', PyInt 123)])) (Recv_Done (Recv_Str ''123''))
              (streaming (map_of [(''123'', PyInt 123)]) None)) = Exited \<and>
   running (step (env_ok (map_of [(''123'', PyInt 123)])) (Recv_Done (Recv_Str ''123''))
              (streaming (map_of [(''123'', PyInt 123)]) None)) \<and>
   logged (step (env_ok (map_of [(''123'', PyInt 123)])) (Recv_Done (Recv_Str ''123''))
             (streaming (map_of [(''123'', PyInt 123)]) None)) =
     logged (streaming (map_of [(''123'', PyInt 123)]) None) @
     [(ERROR, Error_receiving_audio TypeError), (INFO, Audio_playback_stopped)]"
  by (simp add: run_defs)



text \<open>
  A path on which \<open>stop\<close> is not called at all: when the send of the configuration
  raises (other than a \<open>TimeoutError\<close>), the exception leaves \<open>run\<close> from \<open>connect\<close>,
  before the \<open>try\<close> of \<open>run\<close>; \<open>clawdbot_connect\<close> returns the status \<open>error\<close>, and
  the client is still running and still has its connection.
\<close>

lemma config_send_failure_keeps_connection:
  "returned (run_of Map.empty None
      [Connect_Done None, Config_Sent (Some (Other ''ConnectionClosed''))]) \<and>
   status (result (run_of Map.empty None
      [Connect_Done None, Config_Sent (Some (Other ''ConnectionClosed''))])) = Error \<and>
   running (run_of Map.empty None
      [Connect_Done None, Config_Sent (Some (Other ''ConnectionClosed''))]) \<and>
   ws (run_of Map.empty None
      [Connect_Done None, Config_Sent (Some (Other ''ConnectionClosed''))]) \<and>
   closes (run_of Map.empty None
      [Connect_Done None, Config_Sent (Some (Other ''ConnectionClosed''))]) = 0"
  by (simp add: run_defs)



text \<open>
  C7, as the code has it. For an inbound text that decodes to a JSON object, while the
  client is running: if the object has a \<open>text\<close> field, exactly one record is logged, the
  agent utterance with the value of that field; if it has no \<open>text\<close> field and has an
  \<open>error\<close> field, exactly one record is logged, the server error with the value of that
  field; otherwise one debug record with the object. In each case the pump waits for the
  next message, and the running flag, the place of \<open>run\<close> and the result are unchanged.
\<close>

theorem control_message_events:
  assumes "json_loads E message = Some (PyDict data)" and "run_pc s \<noteq> Run_Exit"
    and "down_pc s = Waiting" and "running s" and "ws s"
  shows "logged (step E (Recv_Done (Recv_Str message)) s) =
           logged s @
           [case map_of data ''text'' of
              Some t \<Rightarrow> (INFO, Agent t)
            | None \<Rightarrow>
                (case map_of data ''error'' of
                   Some e \<Rightarrow> (ERROR, Server_error e)
                 | None \<Rightarrow> (DEBUG, Server_message (PyDict data)))] \<and>
         down_pc (step E (Recv_Done (Recv_Str message)) s) = Waiting \<and>
         running (step E (Recv_Done (Recv_Str message)) s) \<and>
         ws (step E (Recv_Done (Recv_Str message)) s) \<and>
         run_pc (step E (Recv_Done (Recv_Str message)) s) = run_pc s \<and>
         returned (step E (Recv_Done (Recv_Str message)) s) = returned s \<and>
         result (step E (Recv_Done (Recv_Str message)) s) = result s"
proof -
  let ?entry = "case map_of data ''text'' of
              Some t \<Rightarrow> (INFO, Agent t)
            | None \<Rightarrow>
                (case map_of data ''error'' of
                   Some e \<Rightarrow> (ERROR, Server_error e)
                 | None \<Rightarrow> (DEBUG, Server_message (PyDict data)))"
  have k: "(k \<in> fst ` set data) = (map_of data k \<noteq> None)" for k
    by (simp add: map_of_eq_None_iff)
  from assms(1) have "on_text E message s = Inr (logger (fst ?entry) (snd ?entry) s)"
    by (auto simp: on_text_def k split: option.splits)
  with assms have "recv_done E (Recv_Str message) s =
      (logger (fst ?entry) (snd ?entry) s)\<lparr>down_pc := Waiting\<rparr>"
    by (simp add: recv_done_def receive_audio_loop_def)
  with assms show ?thesis
    by (simp add: step_def gather_done_def logger_def)
qed

theorem control_message_events_witness:
  "json_loads (env_ok (map_of [(''{\"error\": \"oops\"}'', PyDict [(''error'', PyStr ''oops'')])]))
     ''{\"error\": \"oops\"}'' = Some (PyDict [(''error'', PyStr ''oops'')]) \<and>
   run_pc (streaming (map_of [(''{\"error\": \"oops\"}'', PyDict [(''error'', PyStr ''oops'')])]) None)
     \<noteq> Run_Exit \<and>
   down_pc (streaming (map_of [(''{\"error\": \"oops\"}'', PyDict [(''error'', PyStr ''oops'')])]) None)
     = Waiting \<and>
   running (streaming (map_of [(''{\"error\": \"oops\"}'', PyDict [(''error'', PyStr ''oops'')])]) None) \<and>
   ws (streaming (map_of [(''{\"error\": \"oops\"}'', PyDict [(''error'', PyStr ''oops'')])]) None) \<and>
   logged (step (env_ok (map_of [(''{\"error\": \"oops\"}'', PyDict [(''error'', PyStr ''oops'')])]))
             (Recv_Done (Recv_Str ''{\"error\": \"oops\"}''))
             (streaming (map_of [(''{\"error\": \"oops\"}'', PyDict [(''error'', PyStr ''oops'')])]) None)) =
     logged (streaming (map_of [(''{\"error\": \"oops\"}'', PyDict [(''error'', PyStr ''oops'')])]) None) @
     [(ERROR, Server_error (PyStr ''oops''))] \<and>
   down_pc (step (env_ok (map_of [(''{\"error\": \"oops\"}'', PyDict [(''error'', PyStr ''oops'')])]))
              (Recv_Done (Recv_Str ''{\"error\": \"oops\"}''))
              (streaming (map_of [(''{\"error\": \"oops\"}'', PyDict [(''error'', PyStr ''oops'')])]) None))
     = Waiting"
proof -
  have "json_loads (env_ok (map_of [(''{\"error\": \"oops\"}'', PyDict [(''error'', PyStr ''oops'')])]))
     ''{\"error\": \"oops\"}'' = Some (PyDict [(''error'', PyStr ''oops'')])"
    and "run_pc (streaming (map_of [(''{\"error\": \"oops\"}'', PyDict [(''error'', PyStr ''oops'')])]) None)
     \<noteq> Run_Exit"
    and "down_pc (streaming (map_of [(''{\"error\": \"oops\"}'', PyDict [(''error'', PyStr ''oops'')])]) None)
     = Waiting"
    and "running (streaming (map_of [(''{\"error\": \"oops\"}'', PyDict [(''error'', PyStr ''oops'')])]) None)"
    and "ws (streaming (map_of [(''{\"error\": \"oops\"}'', PyDict [(''error'', PyStr ''oops'')])]) None)"
    by (simp_all add: run_defs)
  from this control_message_events [OF this]
  show ?thesis by simp
qed

text \<open>
  C7 as stated fails for an object that has both fields: the \<open>error\<close> branch is the
  \<open>elif\<close> of the \<open>text\<close> branch, so only the utterance is logged and no server error.
\<close>

theorem control_message_both_fields_counterexample:
  "json_loads
     (env_ok (map_of [(''{\"text\": \"a\", \"error\": \"b\"}'',
                       PyDict [(''text'', PyStr ''a''), (''error'', PyStr ''b'')])]))
     ''{\"text\": \"a\", \"error\": \"b\"}'' =
     Some (PyDict [(''text'', PyStr ''a''), (''error'', PyStr ''b'')]) \<and>
   logged (step
             (env_ok (map_of [(''{\"text\": \"a\", \"error\": \"b\"}'',
                               PyDict [(''text'', PyStr ''a''), (''error'', PyStr ''b'')])]))
             (Recv_Done (Recv_Str ''{\"text\": \"a\", \"error\": \"b\"}''))
             (streaming (map_of [(''{\"text\": \"a\", \"error\": \"b\"}'',
                                  PyDict [(''text'', PyStr ''a''), (''error'', PyStr ''b'')])]) None)) =
     logged (streaming (map_of [(''{\"text\": \"a\", \"error\": \"b\"}'',
                                 PyDict [(''text'', PyStr ''a''), (''error'', PyStr ''b'')])]) None) @
     [(INFO, Agent (PyStr ''a''))] \<and>
   (ERROR, Server_error (PyStr ''b'')) \<notin>
     set (logged (step
             (env_ok (map_of [(''{\"text\": \"a\", \"error\": \"b\"}'',
                               PyDict [(''text'', PyStr ''a''), (''error'', PyStr ''b'')])]))
             (Recv_Done (Recv_Str ''{\"text\": \"a\", \"error\": \"b\"}''))
             (streaming (map_of [(''{\"text\": \"a\", \"error\": \"b\"}'',
                                  PyDict [(''text'', PyStr ''a''), (''error'', PyStr ''b'')])]) None)))"
  by (simp add: run_defs)



text \<open>
  C9. Framing is the identity. While the client is running with a connection, the uplink
  pump takes the oldest chunk from the queue and, when the send ends, exactly one binary
  message has been added to what was sent: the chunk itself, 3840 bytes for a block of
  the input stream. And in every session, whatever the events, each binary message sent
  is, byte for byte, a chunk that the capture callback delivered: nothing is split,
  merged or changed.
\<close>

theorem framing_pass_through:
  "(run_pc s \<noteq> Run_Exit \<and> up_pc s = Waiting \<and> running s \<and> ws s \<and>
    items (audio_queue s) = audio_data # rest \<and> length audio_data = block_bytes \<longrightarrow>
      up_pc (step E Queue_Wake s) = Sending audio_data \<and>
      sent (step E Queue_Wake s) = sent s \<and>
      sent (step E (Send_Done None) (step E Queue_Wake s)) = sent s @ [Binary audio_data] \<and>
      items (audio_queue (step E (Send_Done None) (step E Queue_Wake s))) = rest \<and>
      length audio_data = 3840) \<and>
   (Binary b \<in> set (sent (clawdbot_connect E url v prompt d evs)) \<longrightarrow>
      (\<exists>stat. Capture b stat \<in> set evs))"
proof -
  have "up_pc (step E Queue_Wake s) = Sending audio_data \<and>
      sent (step E Queue_Wake s) = sent s \<and>
      sent (step E (Send_Done None) (step E Queue_Wake s)) = sent s @ [Binary audio_data] \<and>
      items (audio_queue (step E (Send_Done None) (step E Queue_Wake s))) = rest \<and>
      length audio_data = 3840"
    if h: "run_pc s \<noteq> Run_Exit \<and> up_pc s = Waiting \<and> running s \<and> ws s \<and>
      items (audio_queue s) = audio_data # rest \<and> length audio_data = block_bytes"
  proof -
    from h have w: "step E Queue_Wake s = gather_done (queue_wake s)"
      by (simp add: step_def)
    from h have q: "up_pc (queue_wake s) = Sending audio_data" "sent (queue_wake s) = sent s"
      "items (audio_queue (queue_wake s)) = rest" "run_pc (queue_wake s) = run_pc s"
      by (simp_all add: get_nowait_def)
    with w have 1: "up_pc (step E Queue_Wake s) = Sending audio_data"
      "sent (step E Queue_Wake s) = sent s" "run_pc (step E Queue_Wake s) \<noteq> Run_Exit"
      "items (audio_queue (step E Queue_Wake s)) = rest"
      using h by simp_all
    then have "step E (Send_Done None) (step E Queue_Wake s) =
        gather_done (send_done audio_data None (step E Queue_Wake s))"
      by (simp add: step_def)
    with 1 h show ?thesis
      by (simp add: block_bytes_eq)
  qed
  then show ?thesis
    using captured_clawdbot_connect by blast
qed

theorem framing_pass_through_witness:
  "run_pc (run_of Map.empty None
      [Connect_Done None, Config_Sent None, Capture (replicate 3840 0) False]) \<noteq> Run_Exit \<and>
   up_pc (run_of Map.empty None
      [Connect_Done None, Config_Sent None, Capture (replicate 3840 0) False]) = Waiting \<and>
   running (run_of Map.empty None
      [Connect_Done None, Config_Sent None, Capture (replicate 3840 0) False]) \<and>
   ws (run_of Map.empty None
      [Connect_Done None, Config_Sent None, Capture (replicate 3840 0) False]) \<and>
   items (audio_queue (run_of Map.empty None
      [Connect_Done None, Config_Sent None, Capture (replicate 3840 0) False])) =
     [replicate 3840 0] \<and>
   length (replicate 3840 (0 :: 8 word)) = block_bytes \<and>
   sent (step (env_ok Map.empty) (Send_Done None)
          (step (env_ok Map.empty) Queue_Wake
            (run_of Map.empty None
               [Connect_Done None, Config_Sent None, Capture (replicate 3840 0) False]))) =
     sent (run_of Map.empty None
      [Connect_Done None, Config_Sent None, Capture (replicate 3840 0) False]) @
     [Binary (replicate 3840 0)] \<and>
   Binary (replicate 3840 0) \<in>
     set (sent (run_of Map.empty None
      [Connect_Done None, Config_Sent None, Capture (replicate 3840 0) False,
       Queue_Wake, Send_Done None])) \<and>
   (\<exists>stat. Capture (replicate 3840 0) stat \<in>
      set [Connect_Done None, Config_Sent None, Capture (replicate 3840 0) False,
           Queue_Wake, Send_Done None])"
proof -
  have h: "run_pc (run_of Map.empty None
      [Connect_Done None, Config_Sent None, Capture (replicate 3840 0) False]) \<noteq> Run_Exit \<and>
   up_pc (run_of Map.empty None
      [Connect_Done None, Config_Sent None, Capture (replicate 3840 0) False]) = Waiting \<and>
   running (run_of Map.empty None
      [Connect_Done None, Config_Sent None, Capture (replicate 3840 0) False]) \<and>
   ws (run_of Map.empty None
      [Connect_Done None, Config_Sent None, Capture (replicate 3840 0) False]) \<and>
   items (audio_queue (run_of Map.empty None
      [Connect_Done None, Config_Sent None, Capture (replicate 3840 0) False])) =
     [replicate 3840 0] \<and>
   length (replicate 3840 (0 :: 8 word)) = block_bytes"
    by (simp add: run_defs block_bytes_eq)
  have m: "Binary (replicate 3840 0) \<in>
     set (sent (run_of Map.empty None
      [Connect_Done None, Config_Sent None, Capture (replicate 3840 0) False,
       Queue_Wake, Send_Done None]))"
    by (simp add: run_defs)
  from h m framing_pass_through
    [of "run_of Map.empty None
           [Connect_Done None, Config_Sent None, Capture (replicate 3840 0) False]"
      "replicate 3840 0" "[]" "env_ok Map.empty" "replicate 3840 0"
      "''wss://localhost:8998/ws''" "''NATF2''" "''''" None
      "[Connect_Done None, Config_Sent None, Capture (replicate 3840 0) False,
        Queue_Wake, Send_Done None]"]
  show ?thesis by (simp only:) blast
qed

section \<open>The claim about voice\_bridge.py\<close>

lemma pp_to_el_eq: "pp_to_el = map (\<lambda>(el_name, pp_name). (pp_name, el_name)) ELEVENLABS_TO_PERSONAPLEX"
  by code_simp

lemma el_round_trip:
  "n \<in> set (map fst ELEVENLABS_TO_PERSONAPLEX) \<Longrightarrow>
   Option.bind (get_personaplex_voice n) get_elevenlabs_voice = Some n"
  unfolding ELEVENLABS_TO_PERSONAPLEX_def list.map fst_conv set_simps insert_iff empty_iff
  by (elim disjE FalseE; hypsubst, code_simp)

lemma pp_round_trip:
  "p \<in> set (map fst pp_to_el) \<Longrightarrow>
   Option.bind (get_elevenlabs_voice p) get_personaplex_voice = Some p"
  unfolding pp_to_el_eq
  unfolding ELEVENLABS_TO_PERSONAPLEX_def list.map fst_conv set_simps insert_iff empty_iff prod.case
  by (elim disjE FalseE; hypsubst, code_simp)

text \<open>
  C10. The two lookups of the voice bridge undo each other: for every key \<open>n\<close> of
  \<open>ELEVENLABS_TO_PERSONAPLEX\<close>, \<open>get_elevenlabs_voice(get_personaplex_voice(n))\<close> is
  \<open>n\<close>; for every preset \<open>p\<close> of \<open>PRESET_INFO\<close> that \<open>_pp_to_el\<close> maps to an
  ElevenLabs name, \<open>get_personaplex_voice(get_elevenlabs_voice(p))\<close> is \<open>p\<close>. A \<open>None\<close>
  of the inner call, on which the outer call would raise, is \<open>None\<close> of the composition.
\<close>

theorem voice_bridge_round_trip:
  "(n \<in> set (map fst ELEVENLABS_TO_PERSONAPLEX) \<longrightarrow>
      Option.bind (get_personaplex_voice n) get_elevenlabs_voice = Some n) \<and>
   (p \<in> set (map fst PRESET_INFO) \<and> map_of pp_to_el p \<noteq> None \<longrightarrow>
      Option.bind (get_elevenlabs_voice p) get_personaplex_voice = Some p)"
proof -
  have "p \<in> set (map fst pp_to_el)" if "map_of pp_to_el p \<noteq> None"
    using that by (simp add: map_of_eq_None_iff)
  then show ?thesis
    using el_round_trip pp_round_trip by blast
qed

theorem voice_bridge_round_trip_witness:
  "''rachel'' \<in> set (map fst ELEVENLABS_TO_PERSONAPLEX) \<and>
   ''NATF2'' \<in> set (map fst PRESET_INFO) \<and> map_of pp_to_el ''NATF2'' \<noteq> None \<and>
   Option.bind (get_personaplex_voice ''rachel'') get_elevenlabs_voice = Some ''rachel'' \<and>
   Option.bind (get_elevenlabs_voice ''NATF2'') get_personaplex_voice = Some ''NATF2''"
proof -
  have 1: "''rachel'' \<in> set (map fst ELEVENLABS_TO_PERSONAPLEX)"
    by (simp add: ELEVENLABS_TO_PERSONAPLEX_def)
  have 2: "''NATF2'' \<in> set (map fst PRESET_INFO)"
    by (simp add: PRESET_INFO_def)
  have 3: "map_of pp_to_el ''NATF2'' \<noteq> None"
    by (simp add: pp_to_el_eq ELEVENLABS_TO_PERSONAPLEX_def)
  show ?thesis
    using voice_bridge_round_trip [of "''rachel''" "''NATF2''"] 1 2 3 by blast
qed

end
